theory Spec2Isabelle
  imports Main "HOL-Library.Word"
begin

unbundle bit_operations_syntax

section \<open>Machine integers and text\<close>

type_synonym uint8 = "8 word"
type_synonym uint16 = "16 word"
type_synonym uint32 = "32 word"
type_synonym uint64 = "64 word"

text \<open>A \<^verbatim>\<open>std::string\<close> is a sequence of bytes.\<close>

type_synonym std_string = "uint8 list"

section \<open>The byte source (\<^verbatim>\<open>IFileReader\<close>)\<close>

text \<open>
  Modelled from the spec: \<^verbatim>\<open>IFileReader\<close>, \<^verbatim>\<open>FileReaderError\<close> and
  \<^verbatim>\<open>FileReaderErrorInformation\<close> are declared outside \<^verbatim>\<open>btf.cpp\<close>. The spec
  describes the byte source as a stateful cursor over a binary blob with random-access
  seek, a current-offset query, fixed-width unsigned reads of 1, 2 and 4 bytes, a run-time
  endianness switch, and a failure for an out-of-range read. The blob is a finite list
  of bytes and the cursor a natural number. A read that would pass the end of the blob
  fails with \<^verbatim>\<open>IOError\<close> and reports the attempted read operation; a failed read
  leaves the reader as it was. \<^verbatim>\<open>seek\<close> only moves the cursor and never fails.
\<close>

datatype FileReaderErrorCode =
  FR_Unknown | FR_MemoryAllocationFailure | FR_FileNotFound | FR_IOError

record ReadOperation =
  ro_offset :: nat
  ro_size :: nat

record FileReaderErrorInformation =
  fre_code :: FileReaderErrorCode
  fre_opt_read_operation :: "ReadOperation option"

record IFileReader =
  fr_data :: "uint8 list"
  fr_pos :: nat
  fr_little_endian :: bool

definition seek :: "IFileReader \<Rightarrow> nat \<Rightarrow> IFileReader" where
  "seek fr off = fr\<lparr>fr_pos := off\<rparr>"

definition offset :: "IFileReader \<Rightarrow> nat" where
  "offset fr = fr_pos fr"

definition setEndianness :: "IFileReader \<Rightarrow> bool \<Rightarrow> IFileReader" where
  "setEndianness fr le = fr\<lparr>fr_little_endian := le\<rparr>"

definition read_bytes ::
  "IFileReader \<Rightarrow> nat \<Rightarrow> FileReaderErrorInformation + (uint8 list \<times> IFileReader)" where
  "read_bytes fr n =
     (if fr_pos fr + n \<le> length (fr_data fr)
      then Inr (take n (drop (fr_pos fr) (fr_data fr)), fr\<lparr>fr_pos := fr_pos fr + n\<rparr>)
      else Inl \<lparr>fre_code = FR_IOError,
                fre_opt_read_operation = Some \<lparr>ro_offset = fr_pos fr, ro_size = n\<rparr>\<rparr>)"

text \<open>The unsigned value of a byte run, least significant byte first.\<close>

fun le_value :: "uint8 list \<Rightarrow> 'a::len word" where
  "le_value [] = 0"
| "le_value (b # bs) = ucast b OR push_bit 8 (le_value bs)"

definition decode_bytes :: "bool \<Rightarrow> uint8 list \<Rightarrow> 'a::len word" where
  "decode_bytes le bs = (if le then le_value bs else le_value (rev bs))"

definition u8 :: "IFileReader \<Rightarrow> FileReaderErrorInformation + (uint8 \<times> IFileReader)" where
  "u8 fr = (case read_bytes fr 1 of
              Inl e \<Rightarrow> Inl e
            | Inr (bs, fr') \<Rightarrow> Inr (decode_bytes (fr_little_endian fr) bs, fr'))"

definition u16 :: "IFileReader \<Rightarrow> FileReaderErrorInformation + (uint16 \<times> IFileReader)" where
  "u16 fr = (case read_bytes fr 2 of
               Inl e \<Rightarrow> Inl e
             | Inr (bs, fr') \<Rightarrow> Inr (decode_bytes (fr_little_endian fr) bs, fr'))"

definition u32 :: "IFileReader \<Rightarrow> FileReaderErrorInformation + (uint32 \<times> IFileReader)" where
  "u32 fr = (case read_bytes fr 4 of
               Inl e \<Rightarrow> Inl e
             | Inr (bs, fr') \<Rightarrow> Inr (decode_bytes (fr_little_endian fr) bs, fr'))"

section \<open>Errors of the decoder\<close>

datatype BTFErrorCode =
  Unknown
| MemoryAllocationFailure
| FileNotFound
| IOError
| InvalidMagicValue
| InvalidBTFKind
| InvalidIntBTFTypeEncoding
| InvalidPtrBTFTypeEncoding
| InvalidArrayBTFTypeEncoding
| InvalidTypedefBTFTypeEncoding
| InvalidEnumBTFTypeEncoding
| InvalidFuncProtoBTFTypeEncoding
| InvalidVolatileBTFTypeEncoding
| InvalidFwdBTFTypeEncoding
| InvalidFuncBTFTypeEncoding

record FileRange =
  range_offset :: uint64
  range_size :: uint64

record BTFErrorInformation =
  err_code :: BTFErrorCode
  err_opt_file_range :: "FileRange option"

type_synonym BTFError = BTFErrorInformation

definition convertFileReaderError :: "FileReaderErrorInformation \<Rightarrow> BTFError" where
  "convertFileReaderError file_reader_error_info =
     (let error_code =
            (case fre_code file_reader_error_info of
               FR_Unknown \<Rightarrow> Unknown
             | FR_MemoryAllocationFailure \<Rightarrow> MemoryAllocationFailure
             | FR_FileNotFound \<Rightarrow> FileNotFound
             | FR_IOError \<Rightarrow> IOError);
          opt_file_range =
            (case fre_opt_read_operation file_reader_error_info of
               None \<Rightarrow> None
             | Some read_operation \<Rightarrow>
                 Some \<lparr>range_offset = of_nat (ro_offset read_operation),
                       range_size = of_nat (ro_size read_operation)\<rparr>)
      in \<lparr>err_code = error_code, err_opt_file_range = opt_file_range\<rparr>)"

section \<open>Headers\<close>

text \<open>
  Modelled from the spec: \<^verbatim>\<open>BTFHeader\<close>, \<^verbatim>\<open>BTFTypeHeader\<close> and the constants
  of \<^verbatim>\<open>btf.h\<close> are declared outside \<^verbatim>\<open>btf.cpp\<close>. The spec gives the file
  header as a 2-byte magic, 1-byte version and flags and five 4-byte fields, and the type
  header as a 4-byte name offset, a 16-bit count, a 5-bit kind, a flag and a 4-byte
  size-or-type field, in a fixed record of 12 bytes.
\<close>

record BTFHeader =
  magic :: uint16
  version :: uint8
  flags :: uint8
  hdr_len :: uint32
  type_off :: uint32
  type_len :: uint32
  str_off :: uint32
  str_len :: uint32

record BTFTypeHeader =
  name_off :: uint32
  vlen :: uint32
  kind :: uint8
  kind_flag :: bool
  size_or_type :: uint32

definition kBTFTypeHeaderSize :: uint64 where
  "kBTFTypeHeaderSize = 12"

text \<open>
  Modelled from the spec: \<^verbatim>\<open>kIntBTFTypeSize\<close> is declared in \<^verbatim>\<open>btf.h\<close>; the
  payload of an Int entry is one 4-byte encoding word.
\<close>

definition kIntBTFTypeSize :: uint64 where
  "kIntBTFTypeSize = 4"

text \<open>
  Modelled from the spec: the two magic sentinels are declared in \<^verbatim>\<open>btf.h\<close>; the
  spec says the big-endian sentinel is the little-endian one with its two bytes swapped.
  The magic of the format is \<^verbatim>\<open>0xEB9F\<close>.
\<close>

definition kLittleEndianMagicValue :: uint16 where
  "kLittleEndianMagicValue = 0xEB9F"

definition kBigEndianMagicValue :: uint16 where
  "kBigEndianMagicValue = 0x9FEB"

section \<open>The String Resolver\<close>

function parseString_loop ::
  "IFileReader \<Rightarrow> std_string \<Rightarrow> (BTFError + std_string) \<times> IFileReader" where
  "parseString_loop fr buffer =
     (case u8 fr of
        Inl error \<Rightarrow> (Inl (convertFileReaderError error), fr)
      | Inr (ch, fr') \<Rightarrow>
          if ch = 0 then (Inr buffer, fr')
          else parseString_loop fr' (buffer @ [ch]))"
  by pat_completeness auto
termination
  by (relation "measure (\<lambda>(fr, buffer). length (fr_data fr) - fr_pos fr)")
     (auto simp: u8_def read_bytes_def split: if_splits)

definition parseString :: "IFileReader \<Rightarrow> uint64 \<Rightarrow> (BTFError + std_string) \<times> IFileReader" where
  "parseString fr off =
     (let original_offset = offset fr;
          (output, fr') = parseString_loop (seek fr (unat off)) []
      in (output, seek fr' original_offset))"

section \<open>The type header\<close>

definition parseTypeHeader :: "IFileReader \<Rightarrow> BTFError + (BTFTypeHeader \<times> IFileReader)" where
  "parseTypeHeader fr =
     (case u32 fr of
        Inl error \<Rightarrow> Inl (convertFileReaderError error)
      | Inr (name_off_v, fr1) \<Rightarrow>
     (case u32 fr1 of
        Inl error \<Rightarrow> Inl (convertFileReaderError error)
      | Inr (info, fr2) \<Rightarrow>
     (case u32 fr2 of
        Inl error \<Rightarrow> Inl (convertFileReaderError error)
      | Inr (size_or_type_v, fr3) \<Rightarrow>
          Inr (\<lparr>name_off = name_off_v,
                vlen = info AND 0xFFFF,
                kind = ucast (drop_bit 24 (info AND 0x1F000000)),
                kind_flag = (info AND 0x80000000 \<noteq> 0),
                size_or_type = size_or_type_v\<rparr>, fr3))))"

section \<open>Decoded types\<close>

text \<open>
  Modelled from the spec: the decoded-type structures and the \<^verbatim>\<open>BTFType\<close> variant
  are declared outside \<^verbatim>\<open>btf.cpp\<close>. Each record has the fields the spec lists for
  its kind, under the names the decoders assign to. A field the decoder does not assign
  keeps its default: an absent optional, an empty list, \<open>False\<close>. The struct and the
  union decoder share one generic body, so one record stands for both
  \<^verbatim>\<open>StructBPFType\<close> and \<^verbatim>\<open>UnionBPFType\<close>.
\<close>

record IntBTFType =
  int_name :: std_string
  int_is_signed :: bool
  int_is_char :: bool
  int_is_bool :: bool
  int_bits :: uint32
  int_offset :: uint32

record ArrayBTFType =
  array_type :: uint32
  array_index_type :: uint32
  array_nelems :: uint32

record Member =
  member_opt_name :: "std_string option"
  member_type :: uint32
  member_offset :: uint32

record StructBPFType =
  struct_size :: uint32
  struct_opt_name :: "std_string option"
  struct_member_list :: "Member list"

type_synonym UnionBPFType = StructBPFType

text \<open>
  An enumerator value is a signed 32-bit integer: the decoder stores
  \<^verbatim>\<open>static_cast<std::int32_t>(file_reader.u32())\<close>, the two's-complement reading
  \<open>sint\<close> of the 32-bit word read.
\<close>

record EnumValue =
  value_name :: std_string
  value_val :: int

record EnumBTFType =
  enum_opt_name :: "std_string option"
  enum_value_list :: "EnumValue list"

record Param =
  param_opt_name :: "std_string option"
  param_type :: uint32

record FuncProtoBTFType =
  param_list :: "Param list"
  variadic :: bool

record FwdBTFType =
  fwd_name :: std_string
  fwd_is_union :: bool

record FuncBTFType =
  func_name :: std_string
  func_type :: uint32

datatype BTFType =
  BTFType_Int IntBTFType
| BTFType_Ptr uint32
| BTFType_Const uint32
| BTFType_Array ArrayBTFType
| BTFType_Typedef std_string
| BTFType_Enum EnumBTFType
| BTFType_FuncProto FuncProtoBTFType
| BTFType_Volatile uint32
| BTFType_Struct StructBPFType
| BTFType_Union UnionBPFType
| BTFType_Fwd FwdBTFType
| BTFType_Func FuncBTFType

type_synonym 'a Result = "BTFError + ('a \<times> IFileReader)"

section \<open>The per-kind decoders\<close>

text \<open>
  Every decoder builds its error range before any check, from the cursor it is called
  with: \<^verbatim>\<open>{file_reader.offset() - kBTFTypeHeaderSize, kBTFTypeHeaderSize + kIntBTFTypeSize}\<close>,
  in unsigned 64-bit arithmetic.
\<close>

definition file_range_of :: "IFileReader \<Rightarrow> FileRange" where
  "file_range_of fr =
     \<lparr>range_offset = of_nat (offset fr) - kBTFTypeHeaderSize,
      range_size = kBTFTypeHeaderSize + kIntBTFTypeSize\<rparr>"

text \<open>
  The error value \<^verbatim>\<open>BTFError{BTFErrorInformation{code, file_range}}\<close> that the decoders
  return for an invalid encoding.
\<close>

definition encoding_error :: "BTFErrorCode \<Rightarrow> FileRange \<Rightarrow> BTFError" where
  "encoding_error code file_range = \<lparr>err_code = code, err_opt_file_range = Some file_range\<rparr>"

definition parseIntData :: "BTFHeader \<Rightarrow> BTFTypeHeader \<Rightarrow> IFileReader \<Rightarrow> BTFType Result" where
  "parseIntData btf_header btf_type_header fr =
     (let file_range = file_range_of fr in
      if kind_flag btf_type_header \<or> vlen btf_type_header \<noteq> 0
      then Inl (encoding_error InvalidIntBTFTypeEncoding file_range)
      else if \<not> (size_or_type btf_type_header = 1 \<or> size_or_type btf_type_header = 2
                  \<or> size_or_type btf_type_header = 4 \<or> size_or_type btf_type_header = 8
                  \<or> size_or_type btf_type_header = 16)
      then Inl (encoding_error InvalidIntBTFTypeEncoding file_range)
      else
        let name_offset = hdr_len btf_header + str_off btf_header + name_off btf_type_header in
        (case parseString fr (ucast name_offset) of
           (Inl error, fr1) \<Rightarrow> Inl error
         | (Inr name, fr1) \<Rightarrow>
        (case u32 fr1 of
           Inl error \<Rightarrow> Inl (convertFileReaderError error)
         | Inr (integer_info, fr2) \<Rightarrow>
             let encoding = drop_bit 24 (integer_info AND 0x0F000000);
                 is_signed = (encoding AND 1 \<noteq> 0);
                 is_char = (encoding AND 2 \<noteq> 0);
                 is_bool = (encoding AND 4 \<noteq> 0);
                 encoding_flag_count =
                   (if is_signed then 1 else 0) + (if is_char then 1 else 0)
                   + (if is_bool then 1 else (0::nat))
             in
             if encoding_flag_count > 1
             then Inl (encoding_error InvalidIntBTFTypeEncoding file_range)
             else
               let bits = integer_info AND 0x000000ff in
               if bits > 128 \<or> bits > size_or_type btf_type_header * 8
               then Inl (encoding_error InvalidIntBTFTypeEncoding file_range)
               else
                 let offs = drop_bit 16 (integer_info AND 0x00ff0000) in
                 if offs + bits > size_or_type btf_type_header * 8
                 then Inl (encoding_error InvalidIntBTFTypeEncoding file_range)
                 else Inr (BTFType_Int \<lparr>int_name = name, int_is_signed = is_signed,
                                          int_is_char = is_char, int_is_bool = is_bool,
                                          int_bits = bits, int_offset = offs\<rparr>, fr2))))"

definition parsePtrData :: "BTFHeader \<Rightarrow> BTFTypeHeader \<Rightarrow> IFileReader \<Rightarrow> BTFType Result" where
  "parsePtrData btf_header btf_type_header fr =
     (let file_range = file_range_of fr in
      if name_off btf_type_header \<noteq> 0 \<or> kind_flag btf_type_header \<or> vlen btf_type_header \<noteq> 0
      then Inl (encoding_error InvalidPtrBTFTypeEncoding file_range)
      else Inr (BTFType_Ptr (size_or_type btf_type_header), fr))"

definition parseConstData :: "BTFHeader \<Rightarrow> BTFTypeHeader \<Rightarrow> IFileReader \<Rightarrow> BTFType Result" where
  "parseConstData btf_header btf_type_header fr =
     (let file_range = file_range_of fr in
      if name_off btf_type_header \<noteq> 0 \<or> kind_flag btf_type_header \<or> vlen btf_type_header \<noteq> 0
      then Inl (encoding_error InvalidPtrBTFTypeEncoding file_range)
      else Inr (BTFType_Const (size_or_type btf_type_header), fr))"

definition parseArrayData :: "BTFHeader \<Rightarrow> BTFTypeHeader \<Rightarrow> IFileReader \<Rightarrow> BTFType Result" where
  "parseArrayData btf_header btf_type_header fr =
     (let file_range = file_range_of fr in
      if name_off btf_type_header \<noteq> 0 \<or> kind_flag btf_type_header \<or> vlen btf_type_header \<noteq> 0
         \<or> size_or_type btf_type_header \<noteq> 0
      then Inl (encoding_error InvalidArrayBTFTypeEncoding file_range)
      else
        (case u32 fr of
           Inl error \<Rightarrow> Inl (convertFileReaderError error)
         | Inr (type_v, fr1) \<Rightarrow>
        (case u32 fr1 of
           Inl error \<Rightarrow> Inl (convertFileReaderError error)
         | Inr (index_type_v, fr2) \<Rightarrow>
        (case u32 fr2 of
           Inl error \<Rightarrow> Inl (convertFileReaderError error)
         | Inr (nelems_v, fr3) \<Rightarrow>
             Inr (BTFType_Array \<lparr>array_type = type_v, array_index_type = index_type_v,
                                  array_nelems = nelems_v\<rparr>, fr3)))))"

definition parseTypedefData :: "BTFHeader \<Rightarrow> BTFTypeHeader \<Rightarrow> IFileReader \<Rightarrow> BTFType Result" where
  "parseTypedefData btf_header btf_type_header fr =
     (let file_range = file_range_of fr in
      if name_off btf_type_header = 0 \<or> kind_flag btf_type_header \<or> vlen btf_type_header \<noteq> 0
      then Inl (encoding_error InvalidTypedefBTFTypeEncoding file_range)
      else
        let name_offset = hdr_len btf_header + str_off btf_header + name_off btf_type_header in
        (case parseString fr (ucast name_offset) of
           (Inl error, fr1) \<Rightarrow> Inl error
         | (Inr name, fr1) \<Rightarrow> Inr (BTFType_Typedef name, fr1)))"

text \<open>
  The enumerator loop \<^verbatim>\<open>for (i = 0; i < vlen; ++i)\<close>; the counter is the number of
  iterations still to run.
\<close>

fun parseEnumData_loop ::
  "BTFHeader \<Rightarrow> FileRange \<Rightarrow> nat \<Rightarrow> IFileReader \<Rightarrow> EnumValue list \<Rightarrow> (EnumValue list) Result" where
  "parseEnumData_loop btf_header file_range 0 fr value_list = Inr (value_list, fr)"
| "parseEnumData_loop btf_header file_range (Suc n) fr value_list =
     (case u32 fr of
        Inl error \<Rightarrow> Inl (convertFileReaderError error)
      | Inr (value_name_off, fr1) \<Rightarrow>
          if value_name_off = 0
          then Inl (encoding_error InvalidEnumBTFTypeEncoding file_range)
          else
            (case parseString fr1 (ucast (hdr_len btf_header + str_off btf_header + value_name_off)) of
               (Inl error, fr2) \<Rightarrow> Inl error
             | (Inr name, fr2) \<Rightarrow>
            (case u32 fr2 of
               Inl error \<Rightarrow> Inl (convertFileReaderError error)
             | Inr (val, fr3) \<Rightarrow>
                 parseEnumData_loop btf_header file_range n fr3
                   (value_list @ [\<lparr>value_name = name, value_val = sint val\<rparr>]))))"

definition parseEnumData :: "BTFHeader \<Rightarrow> BTFTypeHeader \<Rightarrow> IFileReader \<Rightarrow> BTFType Result" where
  "parseEnumData btf_header btf_type_header fr =
     (let file_range = file_range_of fr in
      if kind_flag btf_type_header \<or> vlen btf_type_header = 0
      then Inl (encoding_error InvalidEnumBTFTypeEncoding file_range)
      else if \<not> (size_or_type btf_type_header = 1 \<or> size_or_type btf_type_header = 2
                  \<or> size_or_type btf_type_header = 4 \<or> size_or_type btf_type_header = 8)
      then Inl (encoding_error InvalidEnumBTFTypeEncoding file_range)
      else
        (case (if name_off btf_type_header \<noteq> 0
               then (case parseString fr
                            (ucast (hdr_len btf_header + str_off btf_header + name_off btf_type_header)) of
                       (Inl error, fr1) \<Rightarrow> Inl error
                     | (Inr name, fr1) \<Rightarrow> Inr (Some name, fr1))
               else Inr (None, fr)) of
           Inl error \<Rightarrow> Inl error
         | Inr (opt_name, fr1) \<Rightarrow>
        (case parseEnumData_loop btf_header file_range (unat (vlen btf_type_header)) fr1 [] of
           Inl error \<Rightarrow> Inl error
         | Inr (value_list, fr2) \<Rightarrow>
             Inr (BTFType_Enum \<lparr>enum_opt_name = opt_name, enum_value_list = value_list\<rparr>, fr2))))"

text \<open>The parameter loop of the FuncProto decoder.\<close>

fun parseFuncProtoData_loop ::
  "BTFHeader \<Rightarrow> nat \<Rightarrow> IFileReader \<Rightarrow> Param list \<Rightarrow> (Param list) Result" where
  "parseFuncProtoData_loop btf_header 0 fr params = Inr (params, fr)"
| "parseFuncProtoData_loop btf_header (Suc n) fr params =
     (case u32 fr of
        Inl error \<Rightarrow> Inl (convertFileReaderError error)
      | Inr (param_name_off, fr1) \<Rightarrow>
     (case (if param_name_off \<noteq> 0
            then (case parseString fr1
                         (ucast (param_name_off + (hdr_len btf_header + str_off btf_header))) of
                    (Inl error, fr2) \<Rightarrow> Inl error
                  | (Inr name, fr2) \<Rightarrow> Inr (Some name, fr2))
            else Inr (None, fr1)) of
        Inl error \<Rightarrow> Inl error
      | Inr (opt_name, fr2) \<Rightarrow>
     (case u32 fr2 of
        Inl error \<Rightarrow> Inl (convertFileReaderError error)
      | Inr (type_v, fr3) \<Rightarrow>
          parseFuncProtoData_loop btf_header n fr3
            (params @ [\<lparr>param_opt_name = opt_name, param_type = type_v\<rparr>]))))"

definition parseFuncProtoData :: "BTFHeader \<Rightarrow> BTFTypeHeader \<Rightarrow> IFileReader \<Rightarrow> BTFType Result" where
  "parseFuncProtoData btf_header btf_type_header fr =
     (let file_range = file_range_of fr in
      if name_off btf_type_header \<noteq> 0 \<or> kind_flag btf_type_header
      then Inl (encoding_error InvalidFuncProtoBTFTypeEncoding file_range)
      else
        (case parseFuncProtoData_loop btf_header (unat (vlen btf_type_header)) fr [] of
           Inl error \<Rightarrow> Inl error
         | Inr (params, fr1) \<Rightarrow>
             if params \<noteq> [] \<and> param_opt_name (last params) = None \<and> param_type (last params) = 0
             then Inr (BTFType_FuncProto \<lparr>param_list = butlast params, variadic = True\<rparr>, fr1)
             else Inr (BTFType_FuncProto \<lparr>param_list = params, variadic = False\<rparr>, fr1)))"

definition parseVolatileData :: "BTFHeader \<Rightarrow> BTFTypeHeader \<Rightarrow> IFileReader \<Rightarrow> BTFType Result" where
  "parseVolatileData btf_header btf_type_header fr =
     (let file_range = file_range_of fr in
      if name_off btf_type_header \<noteq> 0 \<or> kind_flag btf_type_header \<or> vlen btf_type_header \<noteq> 0
      then Inl (encoding_error InvalidVolatileBTFTypeEncoding file_range)
      else Inr (BTFType_Volatile (size_or_type btf_type_header), fr))"

text \<open>
  The member loop of \<^verbatim>\<open>parseStructOrUnionData\<close>. Each iteration fills a local
  \<^verbatim>\<open>member\<close> from the three fields it reads; the body ends there, and the local is
  not stored in \<^verbatim>\<open>output\<close>. The loop therefore returns the reader only.
\<close>

fun parseStructOrUnionData_loop :: "BTFHeader \<Rightarrow> nat \<Rightarrow> IFileReader \<Rightarrow> BTFError + IFileReader" where
  "parseStructOrUnionData_loop btf_header 0 fr = Inr fr"
| "parseStructOrUnionData_loop btf_header (Suc n) fr =
     (case u32 fr of
        Inl error \<Rightarrow> Inl (convertFileReaderError error)
      | Inr (member_name_off, fr1) \<Rightarrow>
     (case (if member_name_off \<noteq> 0
            then (case parseString fr1
                         (ucast (member_name_off + (hdr_len btf_header + str_off btf_header))) of
                    (Inl error, fr2) \<Rightarrow> Inl error
                  | (Inr name, fr2) \<Rightarrow> Inr (Some name, fr2))
            else Inr (None, fr1)) of
        Inl error \<Rightarrow> Inl error
      | Inr (opt_name, fr2) \<Rightarrow>
     (case u32 fr2 of
        Inl error \<Rightarrow> Inl (convertFileReaderError error)
      | Inr (type_v, fr3) \<Rightarrow>
     (case u32 fr3 of
        Inl error \<Rightarrow> Inl (convertFileReaderError error)
      | Inr (offset_v, fr4) \<Rightarrow>
          let member = \<lparr>member_opt_name = opt_name, member_type = type_v,
                        member_offset = offset_v\<rparr>
          in parseStructOrUnionData_loop btf_header n fr4))))"

definition parseStructOrUnionData ::
  "BTFHeader \<Rightarrow> BTFTypeHeader \<Rightarrow> IFileReader \<Rightarrow> StructBPFType Result" where
  "parseStructOrUnionData btf_header btf_type_header fr =
     (let output = \<lparr>struct_size = 0, struct_opt_name = None, struct_member_list = []\<rparr>;
          output = output\<lparr>struct_size := size_or_type btf_type_header\<rparr>
      in
      (case (if name_off btf_type_header \<noteq> 0
             then (case parseString fr
                          (ucast (name_off btf_type_header + hdr_len btf_header + str_off btf_header)) of
                     (Inl error, fr1) \<Rightarrow> Inl error
                   | (Inr name, fr1) \<Rightarrow> Inr (output\<lparr>struct_opt_name := Some name\<rparr>, fr1))
             else Inr (output, fr)) of
         Inl error \<Rightarrow> Inl error
       | Inr (output, fr1) \<Rightarrow>
      (case parseStructOrUnionData_loop btf_header (unat (vlen btf_type_header)) fr1 of
         Inl error \<Rightarrow> Inl error
       | Inr fr2 \<Rightarrow> Inr (output, fr2))))"

definition parseStructData :: "BTFHeader \<Rightarrow> BTFTypeHeader \<Rightarrow> IFileReader \<Rightarrow> BTFType Result" where
  "parseStructData btf_header btf_type_header fr =
     (case parseStructOrUnionData btf_header btf_type_header fr of
        Inl error \<Rightarrow> Inl error
      | Inr (output, fr') \<Rightarrow> Inr (BTFType_Struct output, fr'))"

definition parseUnionData :: "BTFHeader \<Rightarrow> BTFTypeHeader \<Rightarrow> IFileReader \<Rightarrow> BTFType Result" where
  "parseUnionData btf_header btf_type_header fr =
     (case parseStructOrUnionData btf_header btf_type_header fr of
        Inl error \<Rightarrow> Inl error
      | Inr (output, fr') \<Rightarrow> Inr (BTFType_Union output, fr'))"

definition parseFwdData :: "BTFHeader \<Rightarrow> BTFTypeHeader \<Rightarrow> IFileReader \<Rightarrow> BTFType Result" where
  "parseFwdData btf_header btf_type_header fr =
     (let file_range = file_range_of fr in
      if name_off btf_type_header = 0 \<or> vlen btf_type_header \<noteq> 0
         \<or> size_or_type btf_type_header \<noteq> 0
      then Inl (encoding_error InvalidFwdBTFTypeEncoding file_range)
      else
        let name_offset = name_off btf_type_header + hdr_len btf_header + str_off btf_header in
        (case parseString fr (ucast name_offset) of
           (Inl error, fr1) \<Rightarrow> Inl error
         | (Inr name, fr1) \<Rightarrow>
             Inr (BTFType_Fwd \<lparr>fwd_name = name, fwd_is_union = kind_flag btf_type_header\<rparr>, fr1)))"

definition parseFuncData :: "BTFHeader \<Rightarrow> BTFTypeHeader \<Rightarrow> IFileReader \<Rightarrow> BTFType Result" where
  "parseFuncData btf_header btf_type_header fr =
     (let file_range = file_range_of fr in
      if name_off btf_type_header = 0 \<or> kind_flag btf_type_header \<or> vlen btf_type_header \<noteq> 0
      then Inl (encoding_error InvalidFuncBTFTypeEncoding file_range)
      else
        let name_offset = name_off btf_type_header + hdr_len btf_header + str_off btf_header in
        (case parseString fr (ucast name_offset) of
           (Inl error, fr1) \<Rightarrow> Inl error
         | (Inr name, fr1) \<Rightarrow>
             Inr (BTFType_Func \<lparr>func_name = name, func_type = size_or_type btf_type_header\<rparr>, fr1)))"

section \<open>Dispatch by kind\<close>

text \<open>
  Modelled from the spec: the kind codes \<^verbatim>\<open>BTFKind_*\<close> are declared in
  \<^verbatim>\<open>btf.h\<close>; the values are those of the format.
\<close>

definition BTFKind_Int :: uint8 where "BTFKind_Int = 1"
definition BTFKind_Ptr :: uint8 where "BTFKind_Ptr = 2"
definition BTFKind_Array :: uint8 where "BTFKind_Array = 3"
definition BTFKind_Struct :: uint8 where "BTFKind_Struct = 4"
definition BTFKind_Union :: uint8 where "BTFKind_Union = 5"
definition BTFKind_Enum :: uint8 where "BTFKind_Enum = 6"
definition BTFKind_Fwd :: uint8 where "BTFKind_Fwd = 7"
definition BTFKind_Typedef :: uint8 where "BTFKind_Typedef = 8"
definition BTFKind_Volatile :: uint8 where "BTFKind_Volatile = 9"
definition BTFKind_Const :: uint8 where "BTFKind_Const = 10"
definition BTFKind_Func :: uint8 where "BTFKind_Func = 12"
definition BTFKind_FuncProto :: uint8 where "BTFKind_FuncProto = 13"

type_synonym BTFTypeParser = "BTFHeader \<Rightarrow> BTFTypeHeader \<Rightarrow> IFileReader \<Rightarrow> BTFType Result"

definition kBTFParserMap :: "uint8 \<rightharpoonup> BTFTypeParser" where
  "kBTFParserMap = map_of
     [(BTFKind_Int, parseIntData),
      (BTFKind_Ptr, parsePtrData),
      (BTFKind_Const, parseConstData),
      (BTFKind_Array, parseArrayData),
      (BTFKind_Typedef, parseTypedefData),
      (BTFKind_Enum, parseEnumData),
      (BTFKind_FuncProto, parseFuncProtoData),
      (BTFKind_Volatile, parseVolatileData),
      (BTFKind_Struct, parseStructData),
      (BTFKind_Union, parseUnionData),
      (BTFKind_Fwd, parseFwdData),
      (BTFKind_Func, parseFuncData)]"

section \<open>Endianness and the file header\<close>

definition detectEndianness :: "IFileReader \<Rightarrow> bool Result" where
  "detectEndianness fr =
     (let fr1 = seek fr 0;
          fr2 = setEndianness fr1 True
      in case u16 fr2 of
           Inl error \<Rightarrow> Inl (convertFileReaderError error)
         | Inr (magic_v, fr3) \<Rightarrow>
             if magic_v = kLittleEndianMagicValue then Inr (True, fr3)
             else if magic_v = kBigEndianMagicValue then Inr (False, fr3)
             else Inl \<lparr>err_code = InvalidMagicValue, err_opt_file_range = None\<rparr>)"

definition readBTFHeader :: "IFileReader \<Rightarrow> BTFHeader Result" where
  "readBTFHeader fr =
     (case u16 (seek fr 0) of
        Inl error \<Rightarrow> Inl (convertFileReaderError error)
      | Inr (magic_v, fr1) \<Rightarrow>
     (case u8 fr1 of
        Inl error \<Rightarrow> Inl (convertFileReaderError error)
      | Inr (version_v, fr2) \<Rightarrow>
     (case u8 fr2 of
        Inl error \<Rightarrow> Inl (convertFileReaderError error)
      | Inr (flags_v, fr3) \<Rightarrow>
     (case u32 fr3 of
        Inl error \<Rightarrow> Inl (convertFileReaderError error)
      | Inr (hdr_len_v, fr4) \<Rightarrow>
     (case u32 fr4 of
        Inl error \<Rightarrow> Inl (convertFileReaderError error)
      | Inr (type_off_v, fr5) \<Rightarrow>
     (case u32 fr5 of
        Inl error \<Rightarrow> Inl (convertFileReaderError error)
      | Inr (type_len_v, fr6) \<Rightarrow>
     (case u32 fr6 of
        Inl error \<Rightarrow> Inl (convertFileReaderError error)
      | Inr (str_off_v, fr7) \<Rightarrow>
     (case u32 fr7 of
        Inl error \<Rightarrow> Inl (convertFileReaderError error)
      | Inr (str_len_v, fr8) \<Rightarrow>
          Inr (\<lparr>magic = magic_v, version = version_v, flags = flags_v,
                hdr_len = hdr_len_v, type_off = type_off_v, type_len = type_len_v,
                str_off = str_off_v, str_len = str_len_v\<rparr>, fr8)))))))))"

section \<open>Frame properties: what a successful call leaves in the reader\<close>

lemma read_bytes_Inr:
  "read_bytes fr n = Inr (bs, fr') \<Longrightarrow>
     fr' = fr\<lparr>fr_pos := fr_pos fr + n\<rparr> \<and> fr_pos fr + n \<le> length (fr_data fr)
     \<and> bs = take n (drop (fr_pos fr) (fr_data fr))"
  by (auto simp: read_bytes_def split: if_splits)

lemma u8_Inr:
  "u8 fr = Inr (v, fr') \<Longrightarrow> fr' = fr\<lparr>fr_pos := fr_pos fr + 1\<rparr> \<and> fr_pos fr + 1 \<le> length (fr_data fr)"
  by (auto simp: u8_def split: sum.splits dest: read_bytes_Inr)

lemma u16_Inr:
  "u16 fr = Inr (v, fr') \<Longrightarrow> fr' = fr\<lparr>fr_pos := fr_pos fr + 2\<rparr> \<and> fr_pos fr + 2 \<le> length (fr_data fr)"
  by (auto simp: u16_def split: sum.splits dest: read_bytes_Inr)

lemma u32_Inr:
  "u32 fr = Inr (v, fr') \<Longrightarrow> fr' = fr\<lparr>fr_pos := fr_pos fr + 4\<rparr> \<and> fr_pos fr + 4 \<le> length (fr_data fr)"
  by (auto simp: u32_def split: sum.splits dest: read_bytes_Inr)

lemma parseString_loop_frame:
  "parseString_loop fr buffer = (r, fr') \<Longrightarrow>
     fr_data fr' = fr_data fr \<and> fr_little_endian fr' = fr_little_endian fr"
proof (induction fr buffer rule: parseString_loop.induct)
  case (1 fr buffer)
  show ?case
  proof (cases "u8 fr")
    case (Inl e)
    with "1.prems" show ?thesis by simp
  next
    case (Inr p)
    obtain ch fr1 where p: "p = (ch, fr1)" by (cases p)
    from Inr p have fr1: "fr1 = fr\<lparr>fr_pos := fr_pos fr + 1\<rparr>" by (auto dest: u8_Inr)
    show ?thesis
    proof (cases "ch = 0")
      case True
      with "1.prems" Inr p have "fr' = fr1" by simp
      with fr1 show ?thesis by simp
    next
      case False
      with "1.prems" Inr p have "parseString_loop fr1 (buffer @ [ch]) = (r, fr')" by simp
      with "1.IH" [OF Inr p [symmetric] False] fr1 show ?thesis by simp
    qed
  qed
qed

lemma parseString_frame: "snd (parseString fr off) = fr"
proof -
  obtain r fr' where l: "parseString_loop (seek fr (unat off)) [] = (r, fr')"
    by (cases "parseString_loop (seek fr (unat off)) []")
  from parseString_loop_frame [OF l]
  have "fr_data fr' = fr_data fr" "fr_little_endian fr' = fr_little_endian fr"
    by (simp_all add: seek_def)
  then have "seek fr' (offset fr) = fr" by (simp add: seek_def offset_def)
  with l show ?thesis by (simp add: parseString_def)
qed

lemma parseString_eq: "parseString fr off = (r, fr') \<Longrightarrow> fr' = fr"
  using parseString_frame [of fr off] by simp

lemma parseEnumData_loop_advance:
  "parseEnumData_loop hdr rng n fr vl = Inr (vl', fr') \<Longrightarrow>
     fr' = fr\<lparr>fr_pos := fr_pos fr + 8 * n\<rparr> \<and> length vl' = length vl + n"
proof (induction n arbitrary: fr vl)
  case 0
  then show ?case by simp
next
  case (Suc n)
  from Suc.prems obtain off fr1 name fr2 val fr3 where
    a: "u32 fr = Inr (off, fr1)" and
    b: "parseString fr1 (ucast (hdr_len hdr + str_off hdr + off)) = (Inr name, fr2)" and
    c: "u32 fr2 = Inr (val, fr3)" and
    d: "parseEnumData_loop hdr rng n fr3 (vl @ [\<lparr>value_name = name, value_val = sint val\<rparr>]) = Inr (vl', fr')"
    by (auto split: sum.splits prod.splits if_splits)
  from a have "fr1 = fr\<lparr>fr_pos := fr_pos fr + 4\<rparr>" by (simp add: u32_Inr)
  moreover from b have "fr2 = fr1" by (rule parseString_eq)
  moreover from c have "fr3 = fr2\<lparr>fr_pos := fr_pos fr2 + 4\<rparr>" by (simp add: u32_Inr)
  ultimately have "fr3 = fr\<lparr>fr_pos := fr_pos fr + 8\<rparr>" by simp
  with Suc.IH [OF d] show ?case by simp
qed

lemma opt_name_step:
  "(if off \<noteq> 0
    then (case parseString fr1 a of (Inl error, fr2) \<Rightarrow> Inl error
          | (Inr name, fr2) \<Rightarrow> Inr (Some name, fr2))
    else Inr (None, fr1)) = Inr (opt, fr2') \<Longrightarrow> fr2' = fr1"
  by (auto split: if_splits prod.splits sum.splits dest: parseString_eq)

lemma Result_InrD:
  "(case m of Inl e \<Rightarrow> Inl (g e) | Inr (a, b) \<Rightarrow> f a b) = Inr r \<Longrightarrow>
     \<exists>a b. m = Inr (a, b) \<and> f a b = Inr r"
  by (auto split: sum.splits prod.splits)

lemma parseFuncProtoData_loop_advance:
  "parseFuncProtoData_loop hdr n fr ps = Inr (ps', fr') \<Longrightarrow>
     fr' = fr\<lparr>fr_pos := fr_pos fr + 8 * n\<rparr> \<and> length ps' = length ps + n"
proof (induction n arbitrary: fr ps)
  case 0
  then show ?case by simp
next
  case (Suc n)
  from Suc.prems obtain off fr1 opt fr2 ty fr3 where
    a: "u32 fr = Inr (off, fr1)" and
    b: "(if off \<noteq> 0
         then (case parseString fr1 (ucast (off + (hdr_len hdr + str_off hdr))) of
                 (Inl error, fr2) \<Rightarrow> Inl error
               | (Inr name, fr2) \<Rightarrow> Inr (Some name, fr2))
         else Inr (None, fr1)) = Inr (opt, fr2)" and
    c: "u32 fr2 = Inr (ty, fr3)" and
    d: "parseFuncProtoData_loop hdr n fr3 (ps @ [\<lparr>param_opt_name = opt, param_type = ty\<rparr>]) = Inr (ps', fr')"
    by (auto simp del: split_paired_Ex dest!: Result_InrD)
  from a have "fr1 = fr\<lparr>fr_pos := fr_pos fr + 4\<rparr>" by (simp add: u32_Inr)
  moreover from b have "fr2 = fr1" by (rule opt_name_step)
  moreover from c have "fr3 = fr2\<lparr>fr_pos := fr_pos fr2 + 4\<rparr>" by (simp add: u32_Inr)
  ultimately have "fr3 = fr\<lparr>fr_pos := fr_pos fr + 8\<rparr>" by simp
  with Suc.IH [OF d] show ?case by simp
qed

lemma parseStructOrUnionData_loop_advance:
  "parseStructOrUnionData_loop hdr n fr = Inr fr' \<Longrightarrow>
     fr' = fr\<lparr>fr_pos := fr_pos fr + 12 * n\<rparr>"
proof (induction n arbitrary: fr)
  case 0
  then show ?case by simp
next
  case (Suc n)
  from Suc.prems obtain off fr1 opt fr2 ty fr3 ov fr4 where
    a: "u32 fr = Inr (off, fr1)" and
    b: "(if off \<noteq> 0
         then (case parseString fr1 (ucast (off + (hdr_len hdr + str_off hdr))) of
                 (Inl error, fr2) \<Rightarrow> Inl error
               | (Inr name, fr2) \<Rightarrow> Inr (Some name, fr2))
         else Inr (None, fr1)) = Inr (opt, fr2)" and
    c: "u32 fr2 = Inr (ty, fr3)" and
    c': "u32 fr3 = Inr (ov, fr4)" and
    d: "parseStructOrUnionData_loop hdr n fr4 = Inr fr'"
    by (auto simp del: split_paired_Ex dest!: Result_InrD)
  from a have "fr1 = fr\<lparr>fr_pos := fr_pos fr + 4\<rparr>" by (simp add: u32_Inr)
  moreover from b have "fr2 = fr1" by (rule opt_name_step)
  moreover from c have "fr3 = fr2\<lparr>fr_pos := fr_pos fr2 + 4\<rparr>" by (simp add: u32_Inr)
  moreover from c' have "fr4 = fr3\<lparr>fr_pos := fr_pos fr3 + 4\<rparr>" by (simp add: u32_Inr)
  ultimately have "fr4 = fr\<lparr>fr_pos := fr_pos fr + 12\<rparr>" by simp
  with Suc.IH [OF d] show ?case by simp
qed

lemma parseTypeHeader_advance:
  "parseTypeHeader fr = Inr (th, fr') \<Longrightarrow>
     fr' = fr\<lparr>fr_pos := fr_pos fr + 12\<rparr> \<and> fr_pos fr + 12 \<le> length (fr_data fr)"
  unfolding parseTypeHeader_def
  by (auto simp del: split_paired_Ex dest!: Result_InrD u32_Inr)

lemma parseIntData_advance:
  "parseIntData hdr th fr = Inr (ty, fr') \<Longrightarrow> fr' = fr\<lparr>fr_pos := fr_pos fr + 4\<rparr>"
  unfolding parseIntData_def Let_def
  by (auto split: if_splits prod.splits sum.splits dest!: parseString_eq u32_Inr)

lemma parsePtrData_advance: "parsePtrData hdr th fr = Inr (ty, fr') \<Longrightarrow> fr' = fr"
  by (auto simp: parsePtrData_def Let_def split: if_splits)

lemma parseConstData_advance: "parseConstData hdr th fr = Inr (ty, fr') \<Longrightarrow> fr' = fr"
  by (auto simp: parseConstData_def Let_def split: if_splits)

lemma parseVolatileData_advance: "parseVolatileData hdr th fr = Inr (ty, fr') \<Longrightarrow> fr' = fr"
  by (auto simp: parseVolatileData_def Let_def split: if_splits)

lemma parseArrayData_advance:
  "parseArrayData hdr th fr = Inr (ty, fr') \<Longrightarrow> fr' = fr\<lparr>fr_pos := fr_pos fr + 12\<rparr>"
  unfolding parseArrayData_def Let_def
  by (auto simp del: split_paired_Ex split: if_splits dest!: Result_InrD u32_Inr)

lemma parseTypedefData_advance: "parseTypedefData hdr th fr = Inr (ty, fr') \<Longrightarrow> fr' = fr"
  by (auto simp: parseTypedefData_def Let_def split: if_splits prod.splits sum.splits
           dest!: parseString_eq)

lemma parseFwdData_advance: "parseFwdData hdr th fr = Inr (ty, fr') \<Longrightarrow> fr' = fr"
  by (auto simp: parseFwdData_def Let_def split: if_splits prod.splits sum.splits
           dest!: parseString_eq)

lemma parseFuncData_advance: "parseFuncData hdr th fr = Inr (ty, fr') \<Longrightarrow> fr' = fr"
  by (auto simp: parseFuncData_def Let_def split: if_splits prod.splits sum.splits
           dest!: parseString_eq)

lemma parseEnumData_advance:
  "parseEnumData hdr th fr = Inr (ty, fr') \<Longrightarrow>
     fr' = fr\<lparr>fr_pos := fr_pos fr + 8 * unat (vlen th)\<rparr>"
proof -
  assume a: "parseEnumData hdr th fr = Inr (ty, fr')"
  then obtain opt fr1 vl where
    b: "(if name_off th \<noteq> 0
         then (case parseString fr (ucast (hdr_len hdr + str_off hdr + name_off th)) of
                 (Inl error, fr1) \<Rightarrow> Inl error
               | (Inr name, fr1) \<Rightarrow> Inr (Some name, fr1))
         else Inr (None, fr)) = Inr (opt, fr1)" and
    c: "parseEnumData_loop hdr (file_range_of fr) (unat (vlen th)) fr1 [] = Inr (vl, fr')"
    unfolding parseEnumData_def Let_def
    by (auto simp del: split_paired_Ex split: if_splits dest!: Result_InrD)
  from b have "fr1 = fr" by (rule opt_name_step)
  with parseEnumData_loop_advance [OF c] show ?thesis by simp
qed

lemma parseFuncProtoData_advance:
  "parseFuncProtoData hdr th fr = Inr (ty, fr') \<Longrightarrow>
     fr' = fr\<lparr>fr_pos := fr_pos fr + 8 * unat (vlen th)\<rparr>"
  unfolding parseFuncProtoData_def Let_def
  by (auto simp del: split_paired_Ex split: if_splits
           dest!: Result_InrD parseFuncProtoData_loop_advance)

lemma resolve_step:
  "(if c then (case parseString fr a of (Inl error, fr2) \<Rightarrow> Inl error
               | (Inr name, fr2) \<Rightarrow> Inr (f name, fr2))
    else Inr (d, fr)) = Inr (x, fr') \<Longrightarrow> fr' = fr"
  by (auto split: if_splits prod.splits sum.splits dest: parseString_eq)

lemma parseStructOrUnionData_advance:
  "parseStructOrUnionData hdr th fr = Inr (out, fr') \<Longrightarrow>
     fr' = fr\<lparr>fr_pos := fr_pos fr + 12 * unat (vlen th)\<rparr>"
  unfolding parseStructOrUnionData_def Let_def
  by (auto simp del: split_paired_Ex split: sum.splits
           dest!: Result_InrD resolve_step parseStructOrUnionData_loop_advance)

lemma parseStructData_advance:
  "parseStructData hdr th fr = Inr (ty, fr') \<Longrightarrow>
     fr' = fr\<lparr>fr_pos := fr_pos fr + 12 * unat (vlen th)\<rparr>"
  unfolding parseStructData_def
  by (auto simp del: split_paired_Ex dest!: Result_InrD parseStructOrUnionData_advance)

lemma parseUnionData_advance:
  "parseUnionData hdr th fr = Inr (ty, fr') \<Longrightarrow>
     fr' = fr\<lparr>fr_pos := fr_pos fr + 12 * unat (vlen th)\<rparr>"
  unfolding parseUnionData_def
  by (auto simp del: split_paired_Ex dest!: Result_InrD parseStructOrUnionData_advance)

lemma kBTFParserMap_cases:
  "kBTFParserMap k = Some parser \<Longrightarrow>
     parser \<in> {parseIntData, parsePtrData, parseConstData, parseArrayData, parseTypedefData,
               parseEnumData, parseFuncProtoData, parseVolatileData, parseStructData,
               parseUnionData, parseFwdData, parseFuncData}"
  by (auto simp: kBTFParserMap_def split: if_splits)

lemma kBTFParserMap_advance:
  assumes "kBTFParserMap k = Some parser" and "parser hdr th fr = Inr (ty, fr')"
  shows "\<exists>n. fr' = fr\<lparr>fr_pos := fr_pos fr + n\<rparr>"
proof -
  have z: "fr = fr\<lparr>fr_pos := fr_pos fr + 0\<rparr>" by simp
  from kBTFParserMap_cases [OF assms(1)] assms(2) show ?thesis
    by (elim insertE emptyE)
       (auto dest!: parseIntData_advance parsePtrData_advance parseConstData_advance
          parseArrayData_advance parseTypedefData_advance parseEnumData_advance
          parseFuncProtoData_advance parseVolatileData_advance parseStructData_advance
          parseUnionData_advance parseFwdData_advance parseFuncData_advance intro: z)
qed

section \<open>The type section\<close>

function parseTypeSection_loop ::
  "BTFHeader \<Rightarrow> uint32 \<Rightarrow> IFileReader \<Rightarrow> BTFType list \<Rightarrow> (BTFType list) Result" where
  "parseTypeSection_loop btf_header type_section_end_offset fr btf_type_list =
     (if offset fr \<ge> unat type_section_end_offset then Inr (btf_type_list, fr)
      else
        (case parseTypeHeader fr of
           Inl error \<Rightarrow> Inl error
         | Inr (btf_type_header, fr1) \<Rightarrow>
        (case kBTFParserMap (kind btf_type_header) of
           None \<Rightarrow>
             Inl \<lparr>err_code = InvalidBTFKind,
                  err_opt_file_range =
                    Some \<lparr>range_offset = of_nat (offset fr), range_size = kBTFTypeHeaderSize\<rparr>\<rparr>
         | Some parser \<Rightarrow>
        (case parser btf_header btf_type_header fr1 of
           Inl error \<Rightarrow> Inl error
         | Inr (btf_type, fr2) \<Rightarrow>
             parseTypeSection_loop btf_header type_section_end_offset fr2
               (btf_type_list @ [btf_type])))))"
  by pat_completeness auto
termination
proof (relation "measure (\<lambda>(h, e, fr, l). length (fr_data fr) - fr_pos fr)", goal_cases)
  case 1
  show ?case by simp
next
  case (2 btf_header type_section_end_offset fr btf_type_list x2 btf_type_header fr1 parser x2a btf_type fr2)
  from 2 have "parseTypeHeader fr = Inr (btf_type_header, fr1)" by simp
  from parseTypeHeader_advance [OF this]
  have a: "fr1 = fr\<lparr>fr_pos := fr_pos fr + 12\<rparr>" "fr_pos fr + 12 \<le> length (fr_data fr)"
    by simp_all
  from 2 have "kBTFParserMap (kind btf_type_header) = Some parser"
    and "parser btf_header btf_type_header fr1 = Inr (btf_type, fr2)" by simp_all
  from kBTFParserMap_advance [OF this]
  obtain n where "fr2 = fr1\<lparr>fr_pos := fr_pos fr1 + n\<rparr>" ..
  with a show ?case by simp
qed

definition parseTypeSection :: "BTFHeader \<Rightarrow> IFileReader \<Rightarrow> (BTFType list) Result" where
  "parseTypeSection btf_header fr =
     (let type_section_start_offset = hdr_len btf_header + type_off btf_header;
          type_section_end_offset = type_section_start_offset + type_len btf_header;
          fr1 = seek fr (unat type_section_start_offset)
      in parseTypeSection_loop btf_header type_section_end_offset fr1 [])"

text \<open>
  The constructor \<^verbatim>\<open>BTF::BTF\<close>, from the opened byte source on: it throws the first
  error met and otherwise keeps the decoded type list.
\<close>

definition BTF :: "IFileReader \<Rightarrow> BTFError + BTFType list" where
  "BTF file_reader =
     (case detectEndianness file_reader of
        Inl error \<Rightarrow> Inl error
      | Inr (little_endian, fr1) \<Rightarrow>
     (case readBTFHeader (setEndianness fr1 little_endian) of
        Inl error \<Rightarrow> Inl error
      | Inr (btf_header, fr2) \<Rightarrow>
     (case parseTypeSection btf_header fr2 of
        Inl error \<Rightarrow> Inl error
      | Inr (btf_type_list, fr3) \<Rightarrow> Inr btf_type_list)))"

section \<open>Payload records, read in place\<close>

text \<open>
  To say which bytes a decoded element comes from, the records of a payload are also read
  directly at their position: record \<open>i\<close> of a payload of 8-byte records that starts at
  the reader's cursor lies at \<open>offset fr + 8 * i\<close>. These functions state properties; they
  are not part of the decoder.
\<close>

definition param_record :: "BTFHeader \<Rightarrow> IFileReader \<Rightarrow> nat \<Rightarrow> Param option" where
  "param_record btf_header fr i =
     (case u32 (seek fr (offset fr + 8 * i)) of
        Inl error \<Rightarrow> None
      | Inr (param_name_off, fr1) \<Rightarrow>
     (case u32 fr1 of
        Inl error \<Rightarrow> None
      | Inr (type_v, fr2) \<Rightarrow>
          if param_name_off = 0 then Some \<lparr>param_opt_name = None, param_type = type_v\<rparr>
          else
            (case fst (parseString fr
                         (ucast (param_name_off + (hdr_len btf_header + str_off btf_header)))) of
               Inl error \<Rightarrow> None
             | Inr name \<Rightarrow> Some \<lparr>param_opt_name = Some name, param_type = type_v\<rparr>)))"

text \<open>
  The enumerator records of an Enum payload, read in place: record \<open>i\<close> lies at
  \<open>offset fr + 8 * i\<close>. \<open>enum_name_off\<close> is its name-offset field alone;
  \<open>enum_record\<close> is the whole record, the resolved name and the 32-bit value word as
  read, defined when the name offset is non-zero and every read and the resolution
  succeed.
\<close>

definition enum_name_off :: "IFileReader \<Rightarrow> nat \<Rightarrow> uint32 option" where
  "enum_name_off fr i =
     (case u32 (seek fr (offset fr + 8 * i)) of
        Inl error \<Rightarrow> None
      | Inr (value_name_off, fr1) \<Rightarrow> Some value_name_off)"

definition enum_record :: "BTFHeader \<Rightarrow> IFileReader \<Rightarrow> nat \<Rightarrow> (std_string \<times> uint32) option" where
  "enum_record btf_header fr i =
     (case u32 (seek fr (offset fr + 8 * i)) of
        Inl error \<Rightarrow> None
      | Inr (value_name_off, fr1) \<Rightarrow>
          if value_name_off = 0 then None
          else
            (case fst (parseString fr
                         (ucast (hdr_len btf_header + str_off btf_header + value_name_off))) of
               Inl error \<Rightarrow> None
             | Inr name \<Rightarrow>
            (case u32 fr1 of
               Inl error \<Rightarrow> None
             | Inr (val, fr2) \<Rightarrow> Some (name, val))))"

text \<open>
  The optional name of the entry itself: absent when the header's name offset is 0,
  otherwise the text the String Resolver returns for the absolute offset.
\<close>

definition enum_type_name ::
  "BTFHeader \<Rightarrow> BTFTypeHeader \<Rightarrow> IFileReader \<Rightarrow> BTFError + std_string option" where
  "enum_type_name btf_header btf_type_header fr =
     (if name_off btf_type_header \<noteq> 0
      then (case fst (parseString fr
                        (ucast (hdr_len btf_header + str_off btf_header
                                + name_off btf_type_header))) of
              Inl error \<Rightarrow> Inl error
            | Inr name \<Rightarrow> Inr (Some name))
      else Inr None)"

section \<open>Example inputs\<close>

text \<open>
  Example input: the header and bytes of a little-endian file whose type section holds
  one FuncProto entry with two parameter records, \<open>a\<close> of type ID 7 and the unnamed
  record of type ID 0.
\<close>

definition funcproto_example_header :: BTFHeader where
  "funcproto_example_header = \<lparr>magic = 0xEB9F, version = 1, flags = 0, hdr_len = 24,
                                type_off = 0, type_len = 28, str_off = 28, str_len = 3\<rparr>"

definition funcproto_example_file :: "uint8 list" where
  "funcproto_example_file = [0x9F, 0xEB, 1, 0, 24,0,0,0, 0,0,0,0, 28,0,0,0, 28,0,0,0, 3,0,0,0,
                             0,0,0,0, 2,0,0,13, 0,0,0,0,
                             1,0,0,0, 7,0,0,0,  0,0,0,0, 0,0,0,0,
                             0, 97, 0]"

text \<open>
  Example inputs: the header and bytes of a little-endian file whose type section holds
  one Enum entry with two enumerators \<open>a = 5\<close> and \<open>b = -1\<close>, and the same file
  with the name offset of the second enumerator set to 0.
\<close>

definition enum_example_header :: BTFHeader where
  "enum_example_header = \<lparr>magic = 0xEB9F, version = 1, flags = 0, hdr_len = 24, type_off = 0,
             type_len = 28, str_off = 28, str_len = 5\<rparr>"

definition enum_example_file :: "uint8 list" where
  "enum_example_file = [0x9F, 0xEB, 1, 0, 24,0,0,0, 0,0,0,0, 28,0,0,0, 28,0,0,0, 5,0,0,0,
              0,0,0,0, 2,0,0,6, 4,0,0,0,
              1,0,0,0, 5,0,0,0,  3,0,0,0, 0xFF,0xFF,0xFF,0xFF,
              0, 97, 0, 98, 0]"

definition enum_example_zero_name :: "uint8 list" where
  "enum_example_zero_name = [0x9F, 0xEB, 1, 0, 24,0,0,0, 0,0,0,0, 28,0,0,0, 28,0,0,0, 5,0,0,0,
              0,0,0,0, 2,0,0,6, 4,0,0,0,
              1,0,0,0, 5,0,0,0,  0,0,0,0, 7,0,0,0,
              0, 97, 0, 98, 0]"

text \<open>
  Example inputs: the header and bytes of a little-endian file whose type section holds
  one Int entry named \<open>int\<close> of size 4, with bit width 8 at bit offset 24 (the
  boundary \<open>24 + 8 = 32\<close>), and the same file with bit offset 25.
\<close>

definition int_example_header :: BTFHeader where
  "int_example_header = \<lparr>magic = 0xEB9F, version = 1, flags = 0, hdr_len = 24, type_off = 0,
                          type_len = 16, str_off = 16, str_len = 5\<rparr>"

definition int_example_file :: "uint8 list" where
  "int_example_file = [0x9F, 0xEB, 1, 0, 24,0,0,0, 0,0,0,0, 16,0,0,0, 16,0,0,0, 5,0,0,0,
                       1,0,0,0, 0,0,0,1, 4,0,0,0, 8,0,24,0,
                       0, 105, 110, 116, 0]"

definition int_example_past_boundary :: "uint8 list" where
  "int_example_past_boundary =
     [0x9F, 0xEB, 1, 0, 24,0,0,0, 0,0,0,0, 16,0,0,0, 16,0,0,0, 5,0,0,0,
      1,0,0,0, 0,0,0,1, 4,0,0,0, 8,0,25,0,
      0, 105, 110, 116, 0]"

text \<open>
  Example input: a file cut off after the type header of its one Int entry, whose header
  places the string table at offset 24, so that name offset 0 resolves to the empty text.
\<close>

definition int_truncated_header :: BTFHeader where
  "int_truncated_header = \<lparr>magic = 0xEB9F, version = 1, flags = 0, hdr_len = 24, type_off = 0,
                            type_len = 16, str_off = 0, str_len = 1\<rparr>"

definition int_truncated_file :: "uint8 list" where
  "int_truncated_file = [0x9F, 0xEB, 1, 0, 24,0,0,0, 0,0,0,0, 16,0,0,0, 0,0,0,0, 1,0,0,0,
                         0,0,0,0, 0,0,0,1, 4,0,0,0]"

text \<open>
  Example inputs: a file whose one Int entry has name offset 0 and whose string table
  starts with the text \<open>x\<close>, and a file whose header places the string table past
  the end of the file.
\<close>

definition int_unnamed_header :: BTFHeader where
  "int_unnamed_header = \<lparr>magic = 0xEB9F, version = 1, flags = 0, hdr_len = 24, type_off = 0,
                          type_len = 16, str_off = 16, str_len = 2\<rparr>"

definition int_unnamed_file :: "uint8 list" where
  "int_unnamed_file = [0x9F, 0xEB, 1, 0, 24,0,0,0, 0,0,0,0, 16,0,0,0, 16,0,0,0, 2,0,0,0,
                       0,0,0,0, 0,0,0,1, 4,0,0,0, 32,0,0,0,
                       120, 0]"

definition int_no_strings_file :: "uint8 list" where
  "int_no_strings_file = [0x9F, 0xEB, 1, 0, 24,0,0,0, 0,0,0,0, 16,0,0,0, 200,0,0,0, 2,0,0,0,
                          0,0,0,0, 0,0,0,1, 4,0,0,0, 32,0,0,0]"

definition int_no_strings_header :: BTFHeader where
  "int_no_strings_header = \<lparr>magic = 0xEB9F, version = 1, flags = 0, hdr_len = 24, type_off = 0,
                             type_len = 16, str_off = 200, str_len = 2\<rparr>"

text \<open>
  Example input: a file whose header declares a type section of 8 bytes and whose type
  section holds one Ptr entry of 12 bytes.
\<close>

definition short_section_header :: BTFHeader where
  "short_section_header = \<lparr>magic = 0xEB9F, version = 1, flags = 0, hdr_len = 24, type_off = 0,
                            type_len = 8, str_off = 12, str_len = 1\<rparr>"

definition short_section_file :: "uint8 list" where
  "short_section_file = [0x9F, 0xEB, 1, 0, 24,0,0,0, 0,0,0,0, 8,0,0,0, 12,0,0,0, 1,0,0,0,
                         0,0,0,0, 0,0,0,2, 0,0,0,0,
                         0]"

text \<open>
  Example input: the same file with the declared length \<open>0xFFFFFFF0\<close>, for which the
  32-bit sum \<open>hdr_len + type_off + type_len\<close> wraps around to 8.
\<close>

definition wrapped_section_header :: BTFHeader where
  "wrapped_section_header = \<lparr>magic = 0xEB9F, version = 1, flags = 0, hdr_len = 24,
                              type_off = 0, type_len = 0xFFFFFFF0, str_off = 12, str_len = 1\<rparr>"

definition wrapped_section_file :: "uint8 list" where
  "wrapped_section_file =
     [0x9F, 0xEB, 1, 0, 24,0,0,0, 0,0,0,0, 0xF0,0xFF,0xFF,0xFF, 12,0,0,0, 1,0,0,0,
      0,0,0,0, 0,0,0,2, 0,0,0,0,
      0]"

text \<open>
  Example inputs: two files that differ in byte 30 alone, bits 16-23 of the info word of
  their one Int entry; the header places the string table at offset 24 and the name
  offset 6 of the entry points at byte 30.
\<close>

definition info_bits_file_clear :: "uint8 list" where
  "info_bits_file_clear =
     [0x9F, 0xEB, 1, 0, 24,0,0,0, 0,0,0,0, 16,0,0,0, 0,0,0,0, 16,0,0,0,
      6,0,0,0, 0,0,0,1, 4,0,0,0, 32,0,0,0]"

definition info_bits_file_set :: "uint8 list" where
  "info_bits_file_set =
     [0x9F, 0xEB, 1, 0, 24,0,0,0, 0,0,0,0, 16,0,0,0, 0,0,0,0, 16,0,0,0,
      6,0,0,0, 0,0,65,1, 4,0,0,0, 32,0,0,0]"

section \<open>Endianness detection\<close>

text \<open>
  Claim C9. Endianness detection seeks to offset 0, switches the source to little-endian
  reads and reads the 2-byte magic \<open>b0 + 256 * b1\<close>. It returns little-endian = true
  when the magic is the little-endian sentinel, little-endian = false when it is the
  big-endian sentinel, and for every other 2-byte value it fails with
  \<open>InvalidMagicValue\<close> and no byte range.
\<close>

theorem detectEndianness_by_magic:
  assumes "fr_data fr = b0 # b1 # rest"
  shows "detectEndianness fr =
           (let magic_v = (ucast b0 OR push_bit 8 (ucast b1) :: uint16);
                fr' = fr\<lparr>fr_pos := 2, fr_little_endian := True\<rparr>
            in if magic_v = kLittleEndianMagicValue then Inr (True, fr')
               else if magic_v = kBigEndianMagicValue then Inr (False, fr')
               else Inl \<lparr>err_code = InvalidMagicValue, err_opt_file_range = None\<rparr>)"
  using assms
  by (simp add: detectEndianness_def u16_def read_bytes_def seek_def setEndianness_def
        decode_bytes_def Let_def)

theorem detectEndianness_by_magic_witness:
  "detectEndianness \<lparr>fr_data = [0x9F, 0xEB, 1], fr_pos = 7, fr_little_endian = False\<rparr>
     = Inr (True, \<lparr>fr_data = [0x9F, 0xEB, 1], fr_pos = 2, fr_little_endian = True\<rparr>)
   \<and> detectEndianness \<lparr>fr_data = [0xEB, 0x9F, 1], fr_pos = 7, fr_little_endian = False\<rparr>
     = Inr (False, \<lparr>fr_data = [0xEB, 0x9F, 1], fr_pos = 2, fr_little_endian = True\<rparr>)
   \<and> detectEndianness \<lparr>fr_data = [0x9F, 0xEC, 1], fr_pos = 7, fr_little_endian = False\<rparr>
     = Inl \<lparr>err_code = InvalidMagicValue, err_opt_file_range = None\<rparr>"
  using detectEndianness_by_magic
          [of "\<lparr>fr_data = [0x9F, 0xEB, 1], fr_pos = 7, fr_little_endian = False\<rparr>" "0x9F" "0xEB" "[1]"]
        detectEndianness_by_magic
          [of "\<lparr>fr_data = [0xEB, 0x9F, 1], fr_pos = 7, fr_little_endian = False\<rparr>" "0xEB" "0x9F" "[1]"]
        detectEndianness_by_magic
          [of "\<lparr>fr_data = [0x9F, 0xEC, 1], fr_pos = 7, fr_little_endian = False\<rparr>" "0x9F" "0xEC" "[1]"]
  by (simp add: kLittleEndianMagicValue_def kBigEndianMagicValue_def)

section \<open>The packed info word of the type header\<close>

lemma info_mask_parts:
  fixes i i' :: uint32
  assumes "i AND 0x9F00FFFF = i' AND 0x9F00FFFF"
  shows "i AND 0xFFFF = i' AND 0xFFFF"
    and "i AND 0x1F000000 = i' AND 0x1F000000"
    and "i AND 0x80000000 = i' AND 0x80000000"
proof -
  have "(i AND 0x9F00FFFF) AND 0xFFFF = (i' AND 0x9F00FFFF) AND 0xFFFF"
    using assms by simp
  then show "i AND 0xFFFF = i' AND 0xFFFF" by (simp add: and.assoc)
  have "(i AND 0x9F00FFFF) AND 0x1F000000 = (i' AND 0x9F00FFFF) AND 0x1F000000"
    using assms by simp
  then show "i AND 0x1F000000 = i' AND 0x1F000000" by (simp add: and.assoc)
  have "(i AND 0x9F00FFFF) AND 0x80000000 = (i' AND 0x9F00FFFF) AND 0x80000000"
    using assms by simp
  then show "i AND 0x80000000 = i' AND 0x80000000" by (simp add: and.assoc)
qed

text \<open>
  Claim C10, as the code has it. The type header decoded from an info word depends only
  on bits 0-15, 24-28 and 31 of that word (mask \<open>0x9F00FFFF\<close>): two readers that
  deliver the same name offset and size-or-type, and info words that agree under the
  mask, decode to the same type header, whatever bits 16-23 and 29-30 hold, and so to the
  same entry of the dispatch table. Nothing is said of the decoder's result: the String
  Resolver reads the file at any offset, the bytes of the info word included.
\<close>

theorem parseTypeHeader_info_bits:
  assumes "u32 fr = Inr (n, fa)" and "u32 fa = Inr (i, fb)" and "u32 fb = Inr (s, fc)"
    and "u32 fr' = Inr (n, fa')" and "u32 fa' = Inr (i', fb')" and "u32 fb' = Inr (s, fc')"
    and "i AND 0x9F00FFFF = i' AND 0x9F00FFFF"
  shows "\<exists>h h'. parseTypeHeader fr = Inr (h, fc) \<and> parseTypeHeader fr' = Inr (h', fc')
           \<and> h = h' \<and> kBTFParserMap (kind h) = kBTFParserMap (kind h')"
  using assms(1-6) info_mask_parts [OF assms(7)]
  by (simp add: parseTypeHeader_def)

theorem parseTypeHeader_info_bits_witness:
  "\<exists>h h'. parseTypeHeader \<lparr>fr_data = [1,0,0,0, 2,0,0,1, 4,0,0,0], fr_pos = 0, fr_little_endian = True\<rparr>
          = Inr (h, \<lparr>fr_data = [1,0,0,0, 2,0,0,1, 4,0,0,0], fr_pos = 12, fr_little_endian = True\<rparr>)
      \<and> parseTypeHeader \<lparr>fr_data = [1,0,0,0, 2,0,0xFF,0x61, 4,0,0,0], fr_pos = 0, fr_little_endian = True\<rparr>
          = Inr (h', \<lparr>fr_data = [1,0,0,0, 2,0,0xFF,0x61, 4,0,0,0], fr_pos = 12, fr_little_endian = True\<rparr>)
      \<and> h = h' \<and> kBTFParserMap (kind h) = kBTFParserMap (kind h')"
  by (rule parseTypeHeader_info_bits [where n = 1 and i = "0x01000002" and i' = "0x61FF0002" and s = 4
        and fa = "\<lparr>fr_data = [1,0,0,0, 2,0,0,1, 4,0,0,0], fr_pos = 4, fr_little_endian = True\<rparr>"
        and fb = "\<lparr>fr_data = [1,0,0,0, 2,0,0,1, 4,0,0,0], fr_pos = 8, fr_little_endian = True\<rparr>"
        and fa' = "\<lparr>fr_data = [1,0,0,0, 2,0,0xFF,0x61, 4,0,0,0], fr_pos = 4, fr_little_endian = True\<rparr>"
        and fb' = "\<lparr>fr_data = [1,0,0,0, 2,0,0xFF,0x61, 4,0,0,0], fr_pos = 8, fr_little_endian = True\<rparr>"])
     (simp_all add: u32_def read_bytes_def decode_bytes_def)

text \<open>
  Claim C10 as stated fails on the two files below, which differ in byte 30 alone, bits
  16-23 of the info word of their one Int entry. The type headers decoded are the same,
  but the name offset of the entry points at byte 30, so the decoded Int has the empty
  name in the first file and the name \<open>[65, 1, 4]\<close> in the second: those bits do
  influence a decoder's result.
\<close>

theorem parseTypeHeader_info_bits_counterexample:
  "parseTypeHeader \<lparr>fr_data = info_bits_file_clear, fr_pos = 24, fr_little_endian = True\<rparr>
     = Inr (\<lparr>name_off = 6, vlen = 0, kind = 1, kind_flag = False, size_or_type = 4\<rparr>,
            \<lparr>fr_data = info_bits_file_clear, fr_pos = 36, fr_little_endian = True\<rparr>)
   \<and> parseTypeHeader \<lparr>fr_data = info_bits_file_set, fr_pos = 24, fr_little_endian = True\<rparr>
     = Inr (\<lparr>name_off = 6, vlen = 0, kind = 1, kind_flag = False, size_or_type = 4\<rparr>,
            \<lparr>fr_data = info_bits_file_set, fr_pos = 36, fr_little_endian = True\<rparr>)
   \<and> BTF \<lparr>fr_data = info_bits_file_clear, fr_pos = 0, fr_little_endian = False\<rparr>
     = Inr [BTFType_Int \<lparr>int_name = [], int_is_signed = False, int_is_char = False,
                         int_is_bool = False, int_bits = 32, int_offset = 0\<rparr>]
   \<and> BTF \<lparr>fr_data = info_bits_file_set, fr_pos = 0, fr_little_endian = False\<rparr>
     = Inr [BTFType_Int \<lparr>int_name = [65, 1, 4], int_is_signed = False, int_is_char = False,
                         int_is_bool = False, int_bits = 32, int_offset = 0\<rparr>]"
  by code_simp

section \<open>The String Resolver restores the cursor\<close>

lemma u8_value:
  "u8 fr = Inr (ch, fr') \<Longrightarrow> ch = fr_data fr ! fr_pos fr \<and> fr_pos fr < length (fr_data fr)"
proof -
  assume a: "u8 fr = Inr (ch, fr')"
  then have lt: "fr_pos fr < length (fr_data fr)" by (auto dest: u8_Inr)
  then have "take 1 (drop (fr_pos fr) (fr_data fr)) = [fr_data fr ! fr_pos fr]"
    by (simp add: take_Suc_conv_app_nth [of 0] hd_drop_conv_nth)
  with a lt show ?thesis
    by (auto simp: u8_def read_bytes_def decode_bytes_def split: if_splits)
qed

lemma parseString_loop_text:
  "parseString_loop fr buffer = (Inr s, fr') \<Longrightarrow>
     s = buffer @ takeWhile (\<lambda>b. b \<noteq> 0) (drop (fr_pos fr) (fr_data fr))
     \<and> 0 \<in> set (drop (fr_pos fr) (fr_data fr))"
proof (induction fr buffer rule: parseString_loop.induct)
  case (1 fr buffer)
  show ?case
  proof (cases "u8 fr")
    case (Inl e)
    with "1.prems" show ?thesis by simp
  next
    case (Inr p)
    obtain ch fr1 where p: "p = (ch, fr1)" by (cases p)
    from Inr p have fr1: "fr1 = fr\<lparr>fr_pos := fr_pos fr + 1\<rparr>" by (auto dest: u8_Inr)
    from Inr p have ch: "ch = fr_data fr ! fr_pos fr" and lt: "fr_pos fr < length (fr_data fr)"
      by (auto dest: u8_value)
    from lt have d: "drop (fr_pos fr) (fr_data fr) = ch # drop (Suc (fr_pos fr)) (fr_data fr)"
      by (simp add: ch Cons_nth_drop_Suc)
    show ?thesis
    proof (cases "ch = 0")
      case True
      with "1.prems" Inr p have "s = buffer" by simp
      with True d show ?thesis by simp
    next
      case False
      with "1.prems" Inr p have "parseString_loop fr1 (buffer @ [ch]) = (Inr s, fr')" by simp
      from "1.IH" [OF Inr p [symmetric] False this] fr1 False d show ?thesis by simp
    qed
  qed
qed

text \<open>
  Claim C8. After every call of the String Resolver the cursor of the byte source is
  where it was before the call, whether the call succeeds or fails; and when it succeeds,
  the text returned is the run of bytes from the given absolute offset up to, and not
  including, the first 0 byte (which exists).
\<close>

theorem parseString_cursor_and_text:
  "offset (snd (parseString fr off)) = offset fr
   \<and> (\<forall>s. fst (parseString fr off) = Inr s \<longrightarrow>
          s = takeWhile (\<lambda>b. b \<noteq> 0) (drop (unat off) (fr_data fr))
          \<and> 0 \<in> set (drop (unat off) (fr_data fr)))"
proof (intro conjI allI impI)
  show "offset (snd (parseString fr off)) = offset fr" by (simp add: parseString_frame)
next
  fix s assume a: "fst (parseString fr off) = Inr s"
  obtain r fr' where l: "parseString_loop (seek fr (unat off)) [] = (r, fr')"
    by (cases "parseString_loop (seek fr (unat off)) []")
  with a have "r = Inr s" by (simp add: parseString_def)
  with l parseString_loop_text [of "seek fr (unat off)" "[]" s fr']
  show "s = takeWhile (\<lambda>b. b \<noteq> 0) (drop (unat off) (fr_data fr))"
    and "0 \<in> set (drop (unat off) (fr_data fr))"
    by (simp_all add: seek_def)
qed

theorem parseString_cursor_and_text_witness:
  "parseString \<lparr>fr_data = [7, 102, 111, 111, 0, 9], fr_pos = 5, fr_little_endian = True\<rparr> 1
     = (Inr [102, 111, 111], \<lparr>fr_data = [7, 102, 111, 111, 0, 9], fr_pos = 5, fr_little_endian = True\<rparr>)
   \<and> offset (snd (parseString \<lparr>fr_data = [7, 102, 111], fr_pos = 1, fr_little_endian = True\<rparr> 1)) = 1
   \<and> fst (parseString \<lparr>fr_data = [7, 102, 111], fr_pos = 1, fr_little_endian = True\<rparr> 1)
       = Inl \<lparr>err_code = IOError,
              err_opt_file_range = Some \<lparr>range_offset = 3, range_size = 1\<rparr>\<rparr>"
proof -
  let ?ok = "\<lparr>fr_data = [7, 102, 111, 111, 0, 9], fr_pos = 5, fr_little_endian = True\<rparr>"
  let ?bad = "\<lparr>fr_data = [7, 102, 111], fr_pos = 1, fr_little_endian = True\<rparr>"
  have r: "fst (parseString ?ok 1) = Inr [102, 111, 111]" by code_simp
  have e: "fst (parseString ?bad 1)
             = Inl \<lparr>err_code = IOError,
                    err_opt_file_range = Some \<lparr>range_offset = 3, range_size = 1\<rparr>\<rparr>"
    by code_simp
  from parseString_cursor_and_text [of ?ok 1] parseString_frame [of ?ok 1] r
  have "parseString ?ok 1 = (Inr [102, 111, 111], ?ok)"
    by (simp add: prod_eq_iff)
  moreover from parseString_cursor_and_text [of ?bad 1]
  have "offset (snd (parseString ?bad 1)) = 1" by (simp add: offset_def)
  ultimately show ?thesis using e by simp
qed

section \<open>Struct and union members\<close>

lemma parseStructOrUnionData_no_members:
  "parseStructOrUnionData hdr th fr = Inr (out, fr') \<Longrightarrow> struct_member_list out = []"
  unfolding parseStructOrUnionData_def Let_def
  by (auto split: if_splits prod.splits sum.splits)

text \<open>
  Claim C1 says that a decoded Struct or Union carries \<open>vlen\<close> members, the i-th taken
  from the i-th 12-byte member record. The first file below holds one Struct entry with
  \<open>vlen = 1\<close> and one member record (name offset 0, type ID 1, offset 0); the second
  holds one Union entry with \<open>vlen = 1\<close> and one member record (name \<open>a\<close>, type ID 2,
  offset 0). The decoder reads the record and succeeds, and the Struct and the Union it
  returns have no member.
\<close>

theorem parseStructData_drops_members:
  "BTF \<lparr>fr_data = [0x9F, 0xEB, 1, 0, 24,0,0,0, 0,0,0,0, 24,0,0,0, 24,0,0,0, 1,0,0,0,
                    0,0,0,0, 1,0,0,4, 4,0,0,0,
                    0,0,0,0, 1,0,0,0, 0,0,0,0,
                    0],
        fr_pos = 0, fr_little_endian = False\<rparr>
     = Inr [BTFType_Struct \<lparr>struct_size = 4, struct_opt_name = None, struct_member_list = []\<rparr>]
   \<and> BTF \<lparr>fr_data = [0x9F, 0xEB, 1, 0, 24,0,0,0, 0,0,0,0, 24,0,0,0, 24,0,0,0, 3,0,0,0,
                      0,0,0,0, 1,0,0,5, 4,0,0,0,
                      1,0,0,0, 2,0,0,0, 0,0,0,0,
                      0, 97, 0],
          fr_pos = 0, fr_little_endian = False\<rparr>
     = Inr [BTFType_Union \<lparr>struct_size = 4, struct_opt_name = None, struct_member_list = []\<rparr>]"
  by code_simp

section \<open>The byte range attached to an encoding error\<close>

text \<open>
  Claim C4 says that the byte range of a kind-specific encoding error has length 12 plus
  a payload-size estimate of that kind. The first file holds a Ptr entry (no payload)
  with a non-zero name offset, the second an Enum entry with three enumerator records
  (24 bytes of payload) and the invalid size 3. Both errors carry the range that starts
  at the entry's header (offset 24) and has the one length
  \<open>kBTFTypeHeaderSize + kIntBTFTypeSize\<close>.
\<close>

theorem encoding_error_range_same_length:
  "BTF \<lparr>fr_data = [0x9F, 0xEB, 1, 0, 24,0,0,0, 0,0,0,0, 12,0,0,0, 12,0,0,0, 3,0,0,0,
                    1,0,0,0, 0,0,0,2, 0,0,0,0,
                    0, 97, 0],
        fr_pos = 0, fr_little_endian = False\<rparr>
     = Inl \<lparr>err_code = InvalidPtrBTFTypeEncoding,
            err_opt_file_range =
              Some \<lparr>range_offset = 24, range_size = kBTFTypeHeaderSize + kIntBTFTypeSize\<rparr>\<rparr>
   \<and> BTF \<lparr>fr_data = [0x9F, 0xEB, 1, 0, 24,0,0,0, 0,0,0,0, 36,0,0,0, 36,0,0,0, 3,0,0,0,
                    0,0,0,0, 3,0,0,6, 3,0,0,0,
                    1,0,0,0, 0,0,0,0,  1,0,0,0, 1,0,0,0,  1,0,0,0, 2,0,0,0,
                    0, 97, 0],
        fr_pos = 0, fr_little_endian = False\<rparr>
     = Inl \<lparr>err_code = InvalidEnumBTFTypeEncoding,
            err_opt_file_range =
              Some \<lparr>range_offset = 24, range_size = kBTFTypeHeaderSize + kIntBTFTypeSize\<rparr>\<rparr>"
  by code_simp

section \<open>The parameter records of a FuncProto\<close>

lemma parseString_pos_indep:
  "fst (parseString (fr\<lparr>fr_pos := p\<rparr>) off) = fst (parseString fr off)"
  by (simp add: parseString_def seek_def split: prod.splits)

lemma parseString_split:
  "parseString fr off = (fst (parseString fr off), fr)"
  using parseString_frame [of fr off] by (simp add: prod_eq_iff)

lemma param_record_shift:
  "param_record hdr (fr\<lparr>fr_pos := fr_pos fr + 8\<rparr>) i = param_record hdr fr (Suc i)"
  by (simp add: param_record_def seek_def offset_def parseString_pos_indep add.assoc
           cong: sum.case_cong prod.case_cong if_cong)

lemma parseFuncProtoData_loop_step:
  "param_record hdr fr 0 = Some p \<Longrightarrow>
     parseFuncProtoData_loop hdr (Suc n) fr ps =
       parseFuncProtoData_loop hdr n (fr\<lparr>fr_pos := fr_pos fr + 8\<rparr>) (ps @ [p])"
proof -
  assume a: "param_record hdr fr 0 = Some p"
  have s: "seek fr (offset fr + 8 * 0) = fr" by (simp add: seek_def offset_def)
  from a obtain off fr1 ty fr2 where
    r1: "u32 fr = Inr (off, fr1)" and r2: "u32 fr1 = Inr (ty, fr2)"
    unfolding param_record_def s by (auto split: sum.splits)
  from r1 have fr1: "fr1 = fr\<lparr>fr_pos := fr_pos fr + 4\<rparr>" by (simp add: u32_Inr)
  from u32_Inr [OF r2] fr1 have fr2: "fr2 = fr\<lparr>fr_pos := fr_pos fr + 8\<rparr>" by simp
  show ?thesis
  proof (cases "off = 0")
    case True
    with a r1 r2 have "p = \<lparr>param_opt_name = None, param_type = ty\<rparr>"
      unfolding param_record_def s by simp
    with True r1 r2 fr2 show ?thesis by simp
  next
    case False
    with a r1 r2 obtain name where
      n: "fst (parseString fr (ucast (off + (hdr_len hdr + str_off hdr)))) = Inr name"
      and p: "p = \<lparr>param_opt_name = Some name, param_type = ty\<rparr>"
      unfolding param_record_def s by (auto split: sum.splits)
    from n fr1 have "parseString fr1 (ucast (off + (hdr_len hdr + str_off hdr))) = (Inr name, fr1)"
      using parseString_split [of fr1] by (simp add: parseString_pos_indep)
    with False r1 r2 fr2 p show ?thesis by simp
  qed
qed

lemma parseFuncProtoData_loop_first:
  "parseFuncProtoData_loop hdr (Suc n) fr ps = Inr (ps', fr') \<Longrightarrow>
     \<exists>p. param_record hdr fr 0 = Some p"
proof -
  assume a: "parseFuncProtoData_loop hdr (Suc n) fr ps = Inr (ps', fr')"
  have s: "seek fr (offset fr + 8 * 0) = fr" by (simp add: seek_def offset_def)
  from a obtain off fr1 opt fr2 ty fr3 where
    r1: "u32 fr = Inr (off, fr1)" and
    b: "(if off \<noteq> 0
         then (case parseString fr1 (ucast (off + (hdr_len hdr + str_off hdr))) of
                 (Inl error, fr2) \<Rightarrow> Inl error
               | (Inr name, fr2) \<Rightarrow> Inr (Some name, fr2))
         else Inr (None, fr1)) = Inr (opt, fr2)" and
    r2: "u32 fr2 = Inr (ty, fr3)"
    by (auto simp del: split_paired_Ex dest!: Result_InrD)
  from r1 have fr1: "fr1 = fr\<lparr>fr_pos := fr_pos fr + 4\<rparr>" by (simp add: u32_Inr)
  from b have fr2: "fr2 = fr1" by (rule resolve_step)
  show ?thesis
  proof (cases "off = 0")
    case True
    with r1 r2 fr2 show ?thesis unfolding param_record_def s by simp
  next
    case False
    with b obtain name where "parseString fr1 (ucast (off + (hdr_len hdr + str_off hdr))) = (Inr name, fr2)"
      by (auto split: prod.splits sum.splits)
    then have "fst (parseString fr1 (ucast (off + (hdr_len hdr + str_off hdr)))) = Inr name"
      by simp
    then have "fst (parseString fr (ucast (off + (hdr_len hdr + str_off hdr)))) = Inr name"
      unfolding fr1 parseString_pos_indep .
    with False r1 r2 fr2 show ?thesis unfolding param_record_def s by simp
  qed
qed

lemma upt_Suc_shift: "[0..<Suc n] = 0 # map Suc [0..<n]"
  by (simp add: upt_conv_Cons map_Suc_upt del: upt_Suc)

lemma parseFuncProtoData_loop_records:
  "parseFuncProtoData_loop hdr n fr ps = Inr (ps', fr') \<Longrightarrow>
     \<exists>new. map (param_record hdr fr) [0..<n] = map Some new \<and> ps' = ps @ new"
proof (induction n arbitrary: fr ps)
  case 0
  then show ?case by simp
next
  case (Suc n)
  from parseFuncProtoData_loop_first [OF Suc.prems] obtain p where
    p: "param_record hdr fr 0 = Some p" ..
  from Suc.prems parseFuncProtoData_loop_step [OF p]
  have "parseFuncProtoData_loop hdr n (fr\<lparr>fr_pos := fr_pos fr + 8\<rparr>) (ps @ [p]) = Inr (ps', fr')"
    by simp
  from Suc.IH [OF this] obtain new where
    n: "map (param_record hdr (fr\<lparr>fr_pos := fr_pos fr + 8\<rparr>)) [0..<n] = map Some new"
    and e: "ps' = (ps @ [p]) @ new" by blast
  have "param_record hdr (fr\<lparr>fr_pos := fr_pos fr + 8\<rparr>) = (\<lambda>i. param_record hdr fr (Suc i))"
    by (rule ext) (rule param_record_shift)
  with n have "map (param_record hdr fr) (map Suc [0..<n]) = map Some new"
    by (simp add: comp_def)
  with p have "map (param_record hdr fr) [0..<Suc n] = map Some (p # new)"
    unfolding upt_Suc_shift by simp
  with e show ?case by (intro exI [of _ "p # new"]) simp
qed

section \<open>The variadic sentinel of a FuncProto\<close>

lemma parseFuncProtoData_loop_all:
  "map (param_record hdr fr) [0..<n] = map Some new \<Longrightarrow>
     parseFuncProtoData_loop hdr n fr ps = Inr (ps @ new, fr\<lparr>fr_pos := fr_pos fr + 8 * n\<rparr>)"
proof (induction n arbitrary: fr ps new)
  case 0
  then show ?case by simp
next
  case (Suc n)
  from Suc.prems obtain p new' where new: "new = p # new'"
    and p: "param_record hdr fr 0 = Some p"
    and r: "map (param_record hdr fr) (map Suc [0..<n]) = map Some new'"
    unfolding upt_Suc_shift by (cases new) auto
  have "param_record hdr (fr\<lparr>fr_pos := fr_pos fr + 8\<rparr>) = (\<lambda>i. param_record hdr fr (Suc i))"
    by (rule ext) (rule param_record_shift)
  with r have "map (param_record hdr (fr\<lparr>fr_pos := fr_pos fr + 8\<rparr>)) [0..<n] = map Some new'"
    by (simp add: comp_def)
  from Suc.IH [OF this, of "ps @ [p]"] parseFuncProtoData_loop_step [OF p, of n ps] new
  show ?case by (simp add: add.assoc)
qed

text \<open>
  Claim C6. The FuncProto decoder, past its two structural checks, reads the \<open>vlen\<close>
  parameter records of the payload in order. Whenever all of them can be read, it
  succeeds: if the list read is non-empty and its last entry has no name and type ID 0,
  the result holds the list without that entry and \<open>variadic = True\<close>; if there is no
  such trailing entry, the result holds all \<open>vlen\<close> entries and
  \<open>variadic = False\<close>; and when \<open>vlen = 0\<close> the result holds no parameter and
  \<open>variadic = False\<close>. Conversely the decoder succeeds only in this way: on every
  success the checks have passed and all \<open>vlen\<close> records were read.
\<close>

theorem parseFuncProtoData_variadic:
  "(name_off th = 0 \<and> \<not> kind_flag th \<longrightarrow>
      (\<forall>params. map (param_record hdr fr) [0..<unat (vlen th)] = map Some params \<longrightarrow>
          parseFuncProtoData hdr th fr
            = Inr (BTFType_FuncProto
                     (if params \<noteq> [] \<and> param_opt_name (last params) = None
                         \<and> param_type (last params) = 0
                      then \<lparr>param_list = butlast params, variadic = True\<rparr>
                      else \<lparr>param_list = params, variadic = False\<rparr>),
                   fr\<lparr>fr_pos := fr_pos fr + 8 * unat (vlen th)\<rparr>))
      \<and> (vlen th = 0 \<longrightarrow>
            parseFuncProtoData hdr th fr
              = Inr (BTFType_FuncProto \<lparr>param_list = [], variadic = False\<rparr>, fr)))
   \<and> (\<forall>ty fr'. parseFuncProtoData hdr th fr = Inr (ty, fr') \<longrightarrow>
          name_off th = 0 \<and> \<not> kind_flag th
          \<and> (\<exists>params. map (param_record hdr fr) [0..<unat (vlen th)] = map Some params
                \<and> ty = BTFType_FuncProto
                      (if params \<noteq> [] \<and> param_opt_name (last params) = None
                          \<and> param_type (last params) = 0
                       then \<lparr>param_list = butlast params, variadic = True\<rparr>
                       else \<lparr>param_list = params, variadic = False\<rparr>)))"
proof (intro conjI impI allI)
  fix params
  assume c: "name_off th = 0 \<and> \<not> kind_flag th"
    and m: "map (param_record hdr fr) [0..<unat (vlen th)] = map Some params"
  from parseFuncProtoData_loop_all [OF m, of "[]"] c
  show "parseFuncProtoData hdr th fr
          = Inr (BTFType_FuncProto
                   (if params \<noteq> [] \<and> param_opt_name (last params) = None
                       \<and> param_type (last params) = 0
                    then \<lparr>param_list = butlast params, variadic = True\<rparr>
                    else \<lparr>param_list = params, variadic = False\<rparr>),
                 fr\<lparr>fr_pos := fr_pos fr + 8 * unat (vlen th)\<rparr>)"
    by (simp add: parseFuncProtoData_def Let_def)
next
  assume "name_off th = 0 \<and> \<not> kind_flag th" and "vlen th = 0"
  then show "parseFuncProtoData hdr th fr
               = Inr (BTFType_FuncProto \<lparr>param_list = [], variadic = False\<rparr>, fr)"
    by (simp add: parseFuncProtoData_def Let_def)
next
  fix ty fr'
  assume a: "parseFuncProtoData hdr th fr = Inr (ty, fr')"
  then show "name_off th = 0" and "\<not> kind_flag th"
    by (auto simp: parseFuncProtoData_def Let_def split: if_splits)
  from a obtain params fr1 where
    l: "parseFuncProtoData_loop hdr (unat (vlen th)) fr [] = Inr (params, fr1)" and
    r: "(if params \<noteq> [] \<and> param_opt_name (last params) = None \<and> param_type (last params) = 0
         then Inr (BTFType_FuncProto \<lparr>param_list = butlast params, variadic = True\<rparr>, fr1)
         else Inr (BTFType_FuncProto \<lparr>param_list = params, variadic = False\<rparr>, fr1))
        = (Inr (ty, fr') :: BTFType Result)"
    unfolding parseFuncProtoData_def Let_def
    by (auto simp del: split_paired_Ex split: if_splits dest!: Result_InrD)
  from parseFuncProtoData_loop_records [OF l]
  have m: "map (param_record hdr fr) [0..<unat (vlen th)] = map Some params" by simp
  from r have "ty = BTFType_FuncProto
                 (if params \<noteq> [] \<and> param_opt_name (last params) = None
                     \<and> param_type (last params) = 0
                  then \<lparr>param_list = butlast params, variadic = True\<rparr>
                  else \<lparr>param_list = params, variadic = False\<rparr>)"
    by (auto split: if_splits)
  with m show "\<exists>params. map (param_record hdr fr) [0..<unat (vlen th)] = map Some params
                 \<and> ty = BTFType_FuncProto
                       (if params \<noteq> [] \<and> param_opt_name (last params) = None
                           \<and> param_type (last params) = 0
                        then \<lparr>param_list = butlast params, variadic = True\<rparr>
                        else \<lparr>param_list = params, variadic = False\<rparr>)"
    by blast
qed

theorem parseFuncProtoData_variadic_witness:
  "parseFuncProtoData funcproto_example_header
       \<lparr>name_off = 0, vlen = 2, kind = 13, kind_flag = False, size_or_type = 0\<rparr>
       \<lparr>fr_data = funcproto_example_file, fr_pos = 36, fr_little_endian = True\<rparr>
     = Inr (BTFType_FuncProto
              \<lparr>param_list = [\<lparr>param_opt_name = Some [97], param_type = 7\<rparr>],
               variadic = True\<rparr>,
            \<lparr>fr_data = funcproto_example_file, fr_pos = 52, fr_little_endian = True\<rparr>)
   \<and> parseFuncProtoData funcproto_example_header
       \<lparr>name_off = 0, vlen = 1, kind = 13, kind_flag = False, size_or_type = 0\<rparr>
       \<lparr>fr_data = funcproto_example_file, fr_pos = 36, fr_little_endian = True\<rparr>
     = Inr (BTFType_FuncProto
              \<lparr>param_list = [\<lparr>param_opt_name = Some [97], param_type = 7\<rparr>],
               variadic = False\<rparr>,
            \<lparr>fr_data = funcproto_example_file, fr_pos = 44, fr_little_endian = True\<rparr>)
   \<and> parseFuncProtoData funcproto_example_header
       \<lparr>name_off = 0, vlen = 0, kind = 13, kind_flag = False, size_or_type = 0\<rparr>
       \<lparr>fr_data = funcproto_example_file, fr_pos = 36, fr_little_endian = True\<rparr>
     = Inr (BTFType_FuncProto \<lparr>param_list = [], variadic = False\<rparr>,
            \<lparr>fr_data = funcproto_example_file, fr_pos = 36, fr_little_endian = True\<rparr>)
   \<and> (\<exists>params.
         map (param_record funcproto_example_header
                \<lparr>fr_data = funcproto_example_file, fr_pos = 36, fr_little_endian = True\<rparr>)
           [0..<unat (vlen \<lparr>name_off = 0, vlen = 2, kind = 13, kind_flag = False,
                            size_or_type = 0\<rparr>)]
           = map Some params
         \<and> length params = 2)"
proof -
  let ?h = funcproto_example_header
  let ?f = "\<lparr>fr_data = funcproto_example_file, fr_pos = 36, fr_little_endian = True\<rparr>"
  let ?ts = "\<lparr>name_off = 0, vlen = 2, kind = 13, kind_flag = False, size_or_type = 0\<rparr>"
  let ?tp = "\<lparr>name_off = 0, vlen = 1, kind = 13, kind_flag = False, size_or_type = 0\<rparr>"
  let ?tz = "\<lparr>name_off = 0, vlen = 0, kind = 13, kind_flag = False, size_or_type = 0\<rparr>"
  let ?a = "\<lparr>param_opt_name = Some [97], param_type = 7\<rparr>"
  let ?v = "\<lparr>param_opt_name = None, param_type = 0\<rparr>"
  have cs: "name_off ?ts = 0 \<and> \<not> kind_flag ?ts" and cp: "name_off ?tp = 0 \<and> \<not> kind_flag ?tp"
    and cz: "name_off ?tz = 0 \<and> \<not> kind_flag ?tz" and vz: "vlen ?tz = 0"
    by simp_all
  have rs: "map (param_record ?h ?f) [0..<unat (vlen ?ts)] = map Some [?a, ?v]" by code_simp
  have rp: "map (param_record ?h ?f) [0..<unat (vlen ?tp)] = map Some [?a]" by code_simp
  have s: "parseFuncProtoData ?h ?ts ?f
             = Inr (BTFType_FuncProto
                      (if [?a, ?v] \<noteq> [] \<and> param_opt_name (last [?a, ?v]) = None
                          \<and> param_type (last [?a, ?v]) = 0
                       then \<lparr>param_list = butlast [?a, ?v], variadic = True\<rparr>
                       else \<lparr>param_list = [?a, ?v], variadic = False\<rparr>),
                    ?f\<lparr>fr_pos := fr_pos ?f + 8 * unat (vlen ?ts)\<rparr>)"
    using parseFuncProtoData_variadic [of ?ts ?h ?f] cs rs by blast
  have p: "parseFuncProtoData ?h ?tp ?f
             = Inr (BTFType_FuncProto
                      (if [?a] \<noteq> [] \<and> param_opt_name (last [?a]) = None
                          \<and> param_type (last [?a]) = 0
                       then \<lparr>param_list = butlast [?a], variadic = True\<rparr>
                       else \<lparr>param_list = [?a], variadic = False\<rparr>),
                    ?f\<lparr>fr_pos := fr_pos ?f + 8 * unat (vlen ?tp)\<rparr>)"
    using parseFuncProtoData_variadic [of ?tp ?h ?f] cp rp by blast
  have z: "parseFuncProtoData ?h ?tz ?f
             = Inr (BTFType_FuncProto \<lparr>param_list = [], variadic = False\<rparr>, ?f)"
    using parseFuncProtoData_variadic [of ?tz ?h ?f] cz vz by blast
  from s have s': "parseFuncProtoData ?h ?ts ?f
             = Inr (BTFType_FuncProto \<lparr>param_list = [?a], variadic = True\<rparr>,
                    \<lparr>fr_data = funcproto_example_file, fr_pos = 52, fr_little_endian = True\<rparr>)"
    by simp
  from parseFuncProtoData_variadic [of ?ts ?h ?f] s'
  obtain params where m: "map (param_record ?h ?f) [0..<unat (vlen ?ts)] = map Some params"
    by blast
  with rs have "length params = 2" by (metis length_map length_Cons list.size(3) numeral_2_eq_2)
  with m have e: "\<exists>params. map (param_record ?h ?f) [0..<unat (vlen ?ts)] = map Some params
                    \<and> length params = 2"
    by blast
  from s' p z e show ?thesis by simp
qed

section \<open>The Enum decoder\<close>

lemma seek_here: "seek fr (offset fr + 8 * 0) = fr"
  by (simp add: seek_def offset_def)

lemma parseString_fstD: "fst (parseString fr off) = r \<Longrightarrow> parseString fr off = (r, fr)"
  using parseString_frame [of fr off] by (simp add: prod_eq_iff)

lemma enum_record_shift:
  "enum_record hdr (fr\<lparr>fr_pos := fr_pos fr + 8\<rparr>) = (\<lambda>i. enum_record hdr fr (Suc i))"
  by (rule ext)
     (simp add: enum_record_def seek_def offset_def parseString_pos_indep add.assoc
           cong: sum.case_cong prod.case_cong if_cong)

lemma enum_name_off_shift:
  "enum_name_off (fr\<lparr>fr_pos := fr_pos fr + 8\<rparr>) i = enum_name_off fr (Suc i)"
  by (simp add: enum_name_off_def seek_def offset_def add.assoc)

lemma parseEnumData_loop_step:
  assumes "enum_record hdr fr 0 = Some (name, val)"
  shows "parseEnumData_loop hdr rng (Suc n) fr vl =
           parseEnumData_loop hdr rng n (fr\<lparr>fr_pos := fr_pos fr + 8\<rparr>)
             (vl @ [\<lparr>value_name = name, value_val = sint val\<rparr>])"
proof -
  from assms obtain off fr1 fr2 where
    r1: "u32 fr = Inr (off, fr1)" and nz: "off \<noteq> 0" and
    n: "fst (parseString fr (ucast (hdr_len hdr + str_off hdr + off))) = Inr name" and
    r2: "u32 fr1 = Inr (val, fr2)"
    unfolding enum_record_def seek_here by (auto split: sum.splits if_splits)
  from r1 have fr1: "fr1 = fr\<lparr>fr_pos := fr_pos fr + 4\<rparr>" by (simp add: u32_Inr)
  from u32_Inr [OF r2] fr1 have fr2: "fr2 = fr\<lparr>fr_pos := fr_pos fr + 8\<rparr>" by simp
  from n have "fst (parseString fr1 (ucast (hdr_len hdr + str_off hdr + off))) = Inr name"
    unfolding fr1 parseString_pos_indep .
  then have "parseString fr1 (ucast (hdr_len hdr + str_off hdr + off)) = (Inr name, fr1)"
    by (rule parseString_fstD)
  with r1 nz r2 fr2 show ?thesis by simp
qed

lemma parseEnumData_loop_zero_name:
  assumes "enum_name_off fr 0 = Some 0"
  shows "parseEnumData_loop hdr rng (Suc n) fr vl
           = Inl (encoding_error InvalidEnumBTFTypeEncoding rng)"
proof -
  from assms obtain fr1 where "u32 fr = Inr (0, fr1)"
    unfolding enum_name_off_def seek_here by (auto split: sum.splits)
  then show ?thesis by simp
qed

lemma parseEnumData_loop_all:
  "map (enum_record hdr fr) [0..<n] = map Some vs \<Longrightarrow>
     parseEnumData_loop hdr rng n fr vl
       = Inr (vl @ map (\<lambda>(name, val). \<lparr>value_name = name, value_val = sint val\<rparr>) vs,
              fr\<lparr>fr_pos := fr_pos fr + 8 * n\<rparr>)"
proof (induction n arbitrary: fr vl vs)
  case 0
  then show ?case by simp
next
  case (Suc n)
  from Suc.prems obtain name val vs' where vs: "vs = (name, val) # vs'"
    and v: "enum_record hdr fr 0 = Some (name, val)"
    and r: "map (enum_record hdr fr) (map Suc [0..<n]) = map Some vs'"
    unfolding upt_Suc_shift by (cases vs) auto
  from r have "map (enum_record hdr (fr\<lparr>fr_pos := fr_pos fr + 8\<rparr>)) [0..<n] = map Some vs'"
    by (simp add: enum_record_shift comp_def)
  from Suc.IH [OF this, of "vl @ [\<lparr>value_name = name, value_val = sint val\<rparr>]"]
    parseEnumData_loop_step [OF v, of rng n vl] vs
  show ?case by (simp add: add.assoc)
qed

lemma parseEnumData_loop_fail_at:
  "map (enum_record hdr fr) [0..<j] = map Some vs \<Longrightarrow> enum_name_off fr j = Some 0 \<Longrightarrow>
   j < n \<Longrightarrow>
     parseEnumData_loop hdr rng n fr vl = Inl (encoding_error InvalidEnumBTFTypeEncoding rng)"
proof (induction j arbitrary: fr vl vs n)
  case 0
  then obtain m where "n = Suc m" by (cases n) auto
  with 0 parseEnumData_loop_zero_name show ?case by simp
next
  case (Suc j)
  from Suc.prems(3) obtain m where n: "n = Suc m" and jm: "j < m" by (cases n) auto
  from Suc.prems(1) obtain name val vs' where vs: "vs = (name, val) # vs'"
    and v: "enum_record hdr fr 0 = Some (name, val)"
    and r: "map (enum_record hdr fr) (map Suc [0..<j]) = map Some vs'"
    unfolding upt_Suc_shift by (cases vs) auto
  from r have a: "map (enum_record hdr (fr\<lparr>fr_pos := fr_pos fr + 8\<rparr>)) [0..<j] = map Some vs'"
    by (simp add: enum_record_shift comp_def)
  from Suc.prems(2) have b: "enum_name_off (fr\<lparr>fr_pos := fr_pos fr + 8\<rparr>) j = Some 0"
    by (simp add: enum_name_off_shift)
  from Suc.IH [OF a b jm, of "vl @ [\<lparr>value_name = name, value_val = sint val\<rparr>]"]
    parseEnumData_loop_step [OF v, of rng m vl] n
  show ?case by simp
qed

lemma parseEnumData_after_checks:
  assumes "\<not> kind_flag th" and "vlen th \<noteq> 0" and "size_or_type th \<in> {1, 2, 4, 8}"
  shows "parseEnumData hdr th fr =
           (case enum_type_name hdr th fr of
              Inl error \<Rightarrow> Inl error
            | Inr opt_name \<Rightarrow>
                (case parseEnumData_loop hdr (file_range_of fr) (unat (vlen th)) fr [] of
                   Inl error \<Rightarrow> Inl error
                 | Inr (value_list, fr2) \<Rightarrow>
                     Inr (BTFType_Enum \<lparr>enum_opt_name = opt_name,
                                         enum_value_list = value_list\<rparr>, fr2)))"
proof (cases "name_off th = 0")
  case True
  with assms show ?thesis
    by (auto simp: parseEnumData_def enum_type_name_def Let_def)
next
  case False
  let ?a = "ucast (hdr_len hdr + str_off hdr + name_off th) :: uint64"
  have p: "parseString fr ?a = (fst (parseString fr ?a), fr)"
    by (rule parseString_fstD) simp
  show ?thesis
  proof (cases "fst (parseString fr ?a)")
    case (Inl e)
    with p have "parseString fr ?a = (Inl e, fr)" by simp
    with assms False Inl show ?thesis
      by (auto simp: parseEnumData_def enum_type_name_def Let_def)
  next
    case (Inr name)
    with p have "parseString fr ?a = (Inr name, fr)" by simp
    with assms False Inr show ?thesis
      by (auto simp: parseEnumData_def enum_type_name_def Let_def)
  qed
qed

text \<open>
  Claim C7, as the code has it. The Enum decoder fails with the Enum-encoding error
  whenever \<open>kind_flag\<close> is set, \<open>vlen\<close> is 0 or \<open>size_or_type\<close> is not 1, 2, 4 or 8.
  Past these checks, a failed resolution of the entry's name is returned as it is. When
  the name is resolved (or absent), an enumerator record with name offset 0 makes the
  decoder fail with the Enum-encoding error provided every record before it was read and
  resolved; and when all \<open>vlen\<close> records are read and resolved with non-zero name
  offsets, the decoder yields the Enum type whose value list holds the \<open>vlen\<close> pairs of
  name and signed 32-bit value in payload order, each value being the two's-complement
  reading \<open>sint\<close> of the 32-bit word of its record, and leaves the cursor after the
  payload.
\<close>

theorem parseEnumData_outcome:
  "(kind_flag th \<or> vlen th = 0 \<or> size_or_type th \<notin> {1, 2, 4, 8} \<longrightarrow>
      parseEnumData hdr th fr
        = Inl (encoding_error InvalidEnumBTFTypeEncoding (file_range_of fr)))
   \<and> (\<not> kind_flag th \<and> vlen th \<noteq> 0 \<and> size_or_type th \<in> {1, 2, 4, 8} \<longrightarrow>
        (\<forall>e. enum_type_name hdr th fr = Inl e \<longrightarrow> parseEnumData hdr th fr = Inl e)
        \<and> (\<forall>opt_name. enum_type_name hdr th fr = Inr opt_name \<longrightarrow>
              (\<forall>j vs. j < unat (vlen th)
                       \<and> map (enum_record hdr fr) [0..<j] = map Some vs
                       \<and> enum_name_off fr j = Some 0 \<longrightarrow>
                  parseEnumData hdr th fr
                    = Inl (encoding_error InvalidEnumBTFTypeEncoding (file_range_of fr)))
              \<and> (\<forall>vs. map (enum_record hdr fr) [0..<unat (vlen th)] = map Some vs \<longrightarrow>
                    parseEnumData hdr th fr
                      = Inr (BTFType_Enum
                               \<lparr>enum_opt_name = opt_name,
                                enum_value_list =
                                  map (\<lambda>(name, val). \<lparr>value_name = name, value_val = sint val\<rparr>)
                                    vs\<rparr>,
                             fr\<lparr>fr_pos := fr_pos fr + 8 * unat (vlen th)\<rparr>))))"
proof (intro conjI impI allI)
  assume "kind_flag th \<or> vlen th = 0 \<or> size_or_type th \<notin> {1, 2, 4, 8}"
  then show "parseEnumData hdr th fr
               = Inl (encoding_error InvalidEnumBTFTypeEncoding (file_range_of fr))"
    by (auto simp: parseEnumData_def Let_def)
next
  fix e
  assume "\<not> kind_flag th \<and> vlen th \<noteq> 0 \<and> size_or_type th \<in> {1, 2, 4, 8}"
    and "enum_type_name hdr th fr = Inl e"
  then show "parseEnumData hdr th fr = Inl e"
    by (simp add: parseEnumData_after_checks)
next
  fix opt_name j vs
  assume c: "\<not> kind_flag th \<and> vlen th \<noteq> 0 \<and> size_or_type th \<in> {1, 2, 4, 8}"
    and n: "enum_type_name hdr th fr = Inr opt_name"
    and j: "j < unat (vlen th) \<and> map (enum_record hdr fr) [0..<j] = map Some vs
            \<and> enum_name_off fr j = Some 0"
  from j have "parseEnumData_loop hdr (file_range_of fr) (unat (vlen th)) fr []
                 = Inl (encoding_error InvalidEnumBTFTypeEncoding (file_range_of fr))"
    by (intro parseEnumData_loop_fail_at [of hdr fr j vs]) simp_all
  with c n show "parseEnumData hdr th fr
                   = Inl (encoding_error InvalidEnumBTFTypeEncoding (file_range_of fr))"
    by (simp add: parseEnumData_after_checks)
next
  fix opt_name vs
  assume c: "\<not> kind_flag th \<and> vlen th \<noteq> 0 \<and> size_or_type th \<in> {1, 2, 4, 8}"
    and n: "enum_type_name hdr th fr = Inr opt_name"
    and a: "map (enum_record hdr fr) [0..<unat (vlen th)] = map Some vs"
  from parseEnumData_loop_all [OF a, of "file_range_of fr" "[]"] c n
  show "parseEnumData hdr th fr
          = Inr (BTFType_Enum
                   \<lparr>enum_opt_name = opt_name,
                    enum_value_list =
                      map (\<lambda>(name, val). \<lparr>value_name = name, value_val = sint val\<rparr>) vs\<rparr>,
                 fr\<lparr>fr_pos := fr_pos fr + 8 * unat (vlen th)\<rparr>)"
    by (simp add: parseEnumData_after_checks)
qed

theorem parseEnumData_outcome_witness:
  "parseEnumData enum_example_header \<lparr>name_off = 0, vlen = 2, kind = 6, kind_flag = False, size_or_type = 4\<rparr>
       \<lparr>fr_data = enum_example_file, fr_pos = 36, fr_little_endian = True\<rparr>
     = Inr (BTFType_Enum
              \<lparr>enum_opt_name = None,
               enum_value_list = [\<lparr>value_name = [97], value_val = 5\<rparr>,
                                  \<lparr>value_name = [98], value_val = - 1\<rparr>]\<rparr>,
            \<lparr>fr_data = enum_example_file, fr_pos = 52, fr_little_endian = True\<rparr>)
   \<and> parseEnumData enum_example_header \<lparr>name_off = 0, vlen = 2, kind = 6, kind_flag = False, size_or_type = 4\<rparr>
       \<lparr>fr_data = enum_example_zero_name, fr_pos = 36, fr_little_endian = True\<rparr>
     = Inl \<lparr>err_code = InvalidEnumBTFTypeEncoding,
            err_opt_file_range = Some \<lparr>range_offset = 24, range_size = 16\<rparr>\<rparr>
   \<and> parseEnumData enum_example_header \<lparr>name_off = 0, vlen = 0, kind = 6, kind_flag = False, size_or_type = 4\<rparr>
       \<lparr>fr_data = enum_example_file, fr_pos = 36, fr_little_endian = True\<rparr>
     = Inl \<lparr>err_code = InvalidEnumBTFTypeEncoding,
            err_opt_file_range = Some \<lparr>range_offset = 24, range_size = 16\<rparr>\<rparr>
   \<and> parseEnumData enum_example_header \<lparr>name_off = 200, vlen = 2, kind = 6, kind_flag = False, size_or_type = 4\<rparr>
       \<lparr>fr_data = enum_example_file, fr_pos = 36, fr_little_endian = True\<rparr>
     = Inl \<lparr>err_code = IOError,
            err_opt_file_range = Some \<lparr>range_offset = 252, range_size = 1\<rparr>\<rparr>"
proof -
  let ?th = "\<lparr>name_off = 0, vlen = 2, kind = 6, kind_flag = False, size_or_type = 4\<rparr>"
  let ?tz = "\<lparr>name_off = 0, vlen = 0, kind = 6, kind_flag = False, size_or_type = 4\<rparr>"
  let ?tn = "\<lparr>name_off = 200, vlen = 2, kind = 6, kind_flag = False, size_or_type = 4\<rparr>"
  let ?fr = "\<lparr>fr_data = enum_example_file, fr_pos = 36, fr_little_endian = True\<rparr>"
  let ?frz = "\<lparr>fr_data = enum_example_zero_name, fr_pos = 36, fr_little_endian = True\<rparr>"
  have checks: "\<not> kind_flag ?th \<and> vlen ?th \<noteq> 0 \<and> size_or_type ?th \<in> {1, 2, 4, 8}" by code_simp
  have checksn: "\<not> kind_flag ?tn \<and> vlen ?tn \<noteq> 0 \<and> size_or_type ?tn \<in> {1, 2, 4, 8}" by code_simp
  have bad: "kind_flag ?tz \<or> vlen ?tz = 0 \<or> size_or_type ?tz \<notin> {1, 2, 4, 8}" by simp
  have name: "enum_type_name enum_example_header ?th ?fr = Inr None" by (simp add: enum_type_name_def)
  have namez: "enum_type_name enum_example_header ?th ?frz = Inr None" by (simp add: enum_type_name_def)
  have namen: "enum_type_name enum_example_header ?tn ?fr
                 = Inl \<lparr>err_code = IOError,
                        err_opt_file_range = Some \<lparr>range_offset = 252, range_size = 1\<rparr>\<rparr>"
    by code_simp
  have recs: "map (enum_record enum_example_header ?fr) [0..<unat (vlen ?th)]
                = map Some [([97], 5), ([98], 0xFFFFFFFF)]"
    by code_simp
  have recz: "1 < unat (vlen ?th)
              \<and> map (enum_record enum_example_header ?frz) [0..<1] = map Some [([97], 5)]
              \<and> enum_name_off ?frz 1 = Some 0"
    by code_simp
  have rng: "encoding_error InvalidEnumBTFTypeEncoding (file_range_of ?fr)
               = \<lparr>err_code = InvalidEnumBTFTypeEncoding,
                  err_opt_file_range = Some \<lparr>range_offset = 24, range_size = 16\<rparr>\<rparr>"
    "encoding_error InvalidEnumBTFTypeEncoding (file_range_of ?frz)
               = \<lparr>err_code = InvalidEnumBTFTypeEncoding,
                  err_opt_file_range = Some \<lparr>range_offset = 24, range_size = 16\<rparr>\<rparr>"
    by (simp_all add: encoding_error_def file_range_of_def offset_def kBTFTypeHeaderSize_def
          kIntBTFTypeSize_def)
  have a: "parseEnumData enum_example_header ?th ?fr
             = Inr (BTFType_Enum
                      \<lparr>enum_opt_name = None,
                       enum_value_list =
                         map (\<lambda>(name, val). \<lparr>value_name = name, value_val = sint val\<rparr>)
                           [([97], 5), ([98], 0xFFFFFFFF :: uint32)]\<rparr>,
                    ?fr\<lparr>fr_pos := fr_pos ?fr + 8 * unat (vlen ?th)\<rparr>)"
    using parseEnumData_outcome [of ?th enum_example_header ?fr] checks name recs by blast
  have b: "parseEnumData enum_example_header ?th ?frz
             = Inl (encoding_error InvalidEnumBTFTypeEncoding (file_range_of ?frz))"
    using parseEnumData_outcome [of ?th enum_example_header ?frz] checks namez recz by blast
  have c: "parseEnumData enum_example_header ?tz ?fr
             = Inl (encoding_error InvalidEnumBTFTypeEncoding (file_range_of ?fr))"
    using parseEnumData_outcome [of ?tz enum_example_header ?fr] bad by blast
  have d: "parseEnumData enum_example_header ?tn ?fr
             = Inl \<lparr>err_code = IOError,
                    err_opt_file_range = Some \<lparr>range_offset = 252, range_size = 1\<rparr>\<rparr>"
    using parseEnumData_outcome [of ?tn enum_example_header ?fr] checksn namen by blast
  from a b c d rng show ?thesis by simp
qed

text \<open>
  Claim C7 as stated fails on the file below: its Enum entry has two enumerator
  records, the first with a name offset outside the file and the second with name offset
  0. The claim asks for the Enum-encoding error; the decoder returns the byte source's
  error for the first record's name.
\<close>

theorem parseEnumData_claim_counterexample:
  "enum_name_off \<lparr>fr_data = [0x9F, 0xEB, 1, 0, 24,0,0,0, 0,0,0,0, 28,0,0,0, 28,0,0,0, 5,0,0,0,
                              0,0,0,0, 2,0,0,6, 4,0,0,0,
                              200,0,0,0, 5,0,0,0,  0,0,0,0, 7,0,0,0,
                              0, 97, 0, 98, 0],
                  fr_pos = 36, fr_little_endian = True\<rparr> 1 = Some 0
   \<and> BTF \<lparr>fr_data = [0x9F, 0xEB, 1, 0, 24,0,0,0, 0,0,0,0, 28,0,0,0, 28,0,0,0, 5,0,0,0,
                      0,0,0,0, 2,0,0,6, 4,0,0,0,
                      200,0,0,0, 5,0,0,0,  0,0,0,0, 7,0,0,0,
                      0, 97, 0, 98, 0],
          fr_pos = 0, fr_little_endian = False\<rparr>
       = Inl \<lparr>err_code = IOError,
              err_opt_file_range = Some \<lparr>range_offset = 252, range_size = 1\<rparr>\<rparr>"
  by code_simp

section \<open>The Int decoder\<close>

lemma and_ff: "(w :: uint32) AND 0xff = take_bit 8 w"
proof -
  have "(0xff :: uint32) = mask 8" by (simp add: mask_eq_exp_minus_1)
  then show ?thesis by (simp add: take_bit_eq_mask)
qed

lemma and_ff0000: "drop_bit 16 ((w :: uint32) AND 0x00ff0000) = take_bit 8 (drop_bit 16 w)"
proof -
  have e: "(0x00ff0000 :: uint32) = push_bit 16 (mask 8)" by (simp add: mask_eq_exp_minus_1)
  show ?thesis unfolding e by (rule bit_eqI) (auto simp: bit_simps)
qed

lemma and_0f000000: "drop_bit 24 ((w :: uint32) AND 0x0F000000) = take_bit 4 (drop_bit 24 w)"
proof -
  have e: "(0x0F000000 :: uint32) = push_bit 24 (mask 4)" by (simp add: mask_eq_exp_minus_1)
  show ?thesis unfolding e by (rule bit_eqI) (auto simp: bit_simps)
qed

lemma flag_bits_take:
  fixes w :: uint32
  shows "(take_bit 4 (drop_bit 24 w) AND 1 \<noteq> 0) = bit w 24"
    and "(take_bit 4 (drop_bit 24 w) AND 2 \<noteq> 0) = bit w 25"
    and "(take_bit 4 (drop_bit 24 w) AND 4 \<noteq> 0) = bit w 26"
proof -
  have "(1 :: uint32) = push_bit 0 1" "(2 :: uint32) = push_bit 1 1" "(4 :: uint32) = push_bit 2 1"
    by simp_all
  then show "(take_bit 4 (drop_bit 24 w) AND 1 \<noteq> 0) = bit w 24"
    and "(take_bit 4 (drop_bit 24 w) AND 2 \<noteq> 0) = bit w 25"
    and "(take_bit 4 (drop_bit 24 w) AND 4 \<noteq> 0) = bit w 26"
    using bit_iff_and_push_bit_not_eq_0 [of "take_bit 4 (drop_bit 24 w)" 0]
      bit_iff_and_push_bit_not_eq_0 [of "take_bit 4 (drop_bit 24 w)" 1]
      bit_iff_and_push_bit_not_eq_0 [of "take_bit 4 (drop_bit 24 w)" 2]
    by (simp_all add: bit_simps)
qed

lemma flag_bits:
  fixes w :: uint32
  shows "(drop_bit 24 (w AND 0x0F000000) AND 1 \<noteq> 0) = bit w 24"
    and "(drop_bit 24 (w AND 0x0F000000) AND 2 \<noteq> 0) = bit w 25"
    and "(drop_bit 24 (w AND 0x0F000000) AND 4 \<noteq> 0) = bit w 26"
  unfolding and_0f000000 by (rule flag_bits_take)+

lemma unat_width: "unat (take_bit 8 (w :: uint32)) = unat w mod 256"
  by (simp add: unsigned_take_bit_eq take_bit_nat_def)

lemma unat_bit_offset: "unat (take_bit 8 (drop_bit 16 (w :: uint32))) = unat w div 65536 mod 256"
  by (simp add: unsigned_take_bit_eq take_bit_nat_def unat_drop_bit_eq drop_bit_nat_def)

lemma unat_offset_plus_width:
  "unat (take_bit 8 (drop_bit 16 (w :: uint32)) + take_bit 8 w)
     = unat w div 65536 mod 256 + unat w mod 256"
proof -
  have "unat (take_bit 8 (drop_bit 16 w)) + unat (take_bit 8 w) < 2 ^ LENGTH(32)"
    unfolding unat_width unat_bit_offset
    using mod_less_divisor [of 256 "unat w"] mod_less_divisor [of 256 "unat w div 65536"]
    by simp
  then have "unat (take_bit 8 (drop_bit 16 w) + take_bit 8 w)
               = unat (take_bit 8 (drop_bit 16 w)) + unat (take_bit 8 w)"
    by (simp only: unat_add_lem)
  also have "\<dots> = unat w div 65536 mod 256 + unat w mod 256"
    by (simp add: unat_width unat_drop_bit_eq drop_bit_nat_def)
  finally show ?thesis .
qed

lemma unat_size_times_8:
  fixes sz :: uint32
  assumes "sz = 1 \<or> sz = 2 \<or> sz = 4 \<or> sz = 8 \<or> sz = 16"
  shows "unat (sz * 8) = unat sz * 8"
  using assms by auto

lemma int_checks_nat:
  fixes w sz :: uint32
  assumes "sz = 1 \<or> sz = 2 \<or> sz = 4 \<or> sz = 8 \<or> sz = 16"
  shows "(128 < take_bit 8 w) = (128 < unat w mod 256)"
    and "(sz * 8 < take_bit 8 w) = (unat sz * 8 < unat w mod 256)"
    and "(sz * 8 < take_bit 8 (drop_bit 16 w) + take_bit 8 w)
           = (unat sz * 8 < unat w div 65536 mod 256 + unat w mod 256)"
  by (simp_all only: word_less_nat_alt unat_width unat_offset_plus_width
        unat_size_times_8 [OF assms]) simp

lemma parseIntData_after_reads:
  assumes "\<not> kind_flag th" and "vlen th = 0"
    and sz: "size_or_type th = 1 \<or> size_or_type th = 2 \<or> size_or_type th = 4
             \<or> size_or_type th = 8 \<or> size_or_type th = 16"
    and name: "fst (parseString fr (ucast (hdr_len hdr + str_off hdr + name_off th))) = Inr name"
    and word: "u32 fr = Inr (w, fr2)"
  shows "parseIntData hdr th fr =
           (if (bit w 24 \<and> bit w 25) \<or> (bit w 24 \<and> bit w 26) \<or> (bit w 25 \<and> bit w 26)
               \<or> 128 < unat w mod 256
               \<or> unat (size_or_type th) * 8 < unat w mod 256
               \<or> unat (size_or_type th) * 8 < unat w div 65536 mod 256 + unat w mod 256
            then Inl (encoding_error InvalidIntBTFTypeEncoding (file_range_of fr))
            else Inr (BTFType_Int
                        \<lparr>int_name = name, int_is_signed = bit w 24, int_is_char = bit w 25,
                         int_is_bool = bit w 26, int_bits = take_bit 8 w,
                         int_offset = take_bit 8 (drop_bit 16 w)\<rparr>, fr2))"
proof -
  from name have p: "parseString fr (ucast (hdr_len hdr + str_off hdr + name_off th))
                       = (Inr name, fr)"
    by (rule parseString_fstD)
  from assms(1,2) sz p word show ?thesis
    unfolding parseIntData_def Let_def flag_bits and_ff0000 and_ff
    by (simp add: int_checks_nat [OF sz])
qed

text \<open>
  Claim C5, as the code has it. The Int decoder fails with the Int-encoding error whenever
  \<open>kind_flag\<close> is set, \<open>vlen\<close> is non-zero or \<open>size_or_type\<close> is not 1, 2, 4, 8 or
  16. Past these checks it resolves the name and reads the encoding word, and a failure
  of either is returned as the byte source's error. When both succeed, it fails with the
  Int-encoding error exactly when more than one of bits 24, 25 and 26 of the encoding
  word is set, or the bit width (low 8 bits) exceeds 128 or \<open>size * 8\<close>, or the bit
  offset (bits 16-23) plus the bit width exceeds \<open>size * 8\<close>; otherwise it succeeds,
  so offset + width = \<open>size * 8\<close> is accepted. The comparisons are those of natural
  numbers: nothing wraps around.
\<close>

theorem parseIntData_outcome:
  "(kind_flag th \<or> vlen th \<noteq> 0 \<or> size_or_type th \<notin> {1, 2, 4, 8, 16} \<longrightarrow>
      parseIntData hdr th fr
        = Inl (encoding_error InvalidIntBTFTypeEncoding (file_range_of fr)))
   \<and> (\<not> kind_flag th \<and> vlen th = 0 \<and> size_or_type th \<in> {1, 2, 4, 8, 16} \<longrightarrow>
        (\<forall>e. fst (parseString fr (ucast (hdr_len hdr + str_off hdr + name_off th))) = Inl e \<longrightarrow>
              parseIntData hdr th fr = Inl e)
        \<and> (\<forall>name. fst (parseString fr (ucast (hdr_len hdr + str_off hdr + name_off th)))
                      = Inr name \<longrightarrow>
              (\<forall>e. u32 fr = Inl e \<longrightarrow>
                    parseIntData hdr th fr = Inl (convertFileReaderError e))
              \<and> (\<forall>w fr2. u32 fr = Inr (w, fr2) \<longrightarrow>
                    parseIntData hdr th fr =
                      (if (bit w 24 \<and> bit w 25) \<or> (bit w 24 \<and> bit w 26)
                          \<or> (bit w 25 \<and> bit w 26)
                          \<or> 128 < unat w mod 256
                          \<or> unat (size_or_type th) * 8 < unat w mod 256
                          \<or> unat (size_or_type th) * 8
                               < unat w div 65536 mod 256 + unat w mod 256
                       then Inl (encoding_error InvalidIntBTFTypeEncoding (file_range_of fr))
                       else Inr (BTFType_Int
                                   \<lparr>int_name = name, int_is_signed = bit w 24,
                                    int_is_char = bit w 25, int_is_bool = bit w 26,
                                    int_bits = take_bit 8 w,
                                    int_offset = take_bit 8 (drop_bit 16 w)\<rparr>, fr2)))))"
proof (intro conjI impI allI)
  assume "kind_flag th \<or> vlen th \<noteq> 0 \<or> size_or_type th \<notin> {1, 2, 4, 8, 16}"
  then show "parseIntData hdr th fr
               = Inl (encoding_error InvalidIntBTFTypeEncoding (file_range_of fr))"
    by (auto simp: parseIntData_def Let_def)
next
  fix e
  assume c: "\<not> kind_flag th \<and> vlen th = 0 \<and> size_or_type th \<in> {1, 2, 4, 8, 16}"
    and "fst (parseString fr (ucast (hdr_len hdr + str_off hdr + name_off th))) = Inl e"
  then have "parseString fr (ucast (hdr_len hdr + str_off hdr + name_off th)) = (Inl e, fr)"
    by (intro parseString_fstD)
  with c show "parseIntData hdr th fr = Inl e"
    by (auto simp: parseIntData_def Let_def)
next
  fix name e
  assume c: "\<not> kind_flag th \<and> vlen th = 0 \<and> size_or_type th \<in> {1, 2, 4, 8, 16}"
    and "fst (parseString fr (ucast (hdr_len hdr + str_off hdr + name_off th))) = Inr name"
    and r: "u32 fr = Inl e"
  then have "parseString fr (ucast (hdr_len hdr + str_off hdr + name_off th)) = (Inr name, fr)"
    by (intro parseString_fstD)
  with c r show "parseIntData hdr th fr = Inl (convertFileReaderError e)"
    by (auto simp: parseIntData_def Let_def)
next
  fix name w fr2
  assume c: "\<not> kind_flag th \<and> vlen th = 0 \<and> size_or_type th \<in> {1, 2, 4, 8, 16}"
    and n: "fst (parseString fr (ucast (hdr_len hdr + str_off hdr + name_off th))) = Inr name"
    and r: "u32 fr = Inr (w, fr2)"
  from c have "\<not> kind_flag th" and "vlen th = 0"
    and "size_or_type th = 1 \<or> size_or_type th = 2 \<or> size_or_type th = 4
         \<or> size_or_type th = 8 \<or> size_or_type th = 16"
    by auto
  from parseIntData_after_reads [OF this n r]
  show "parseIntData hdr th fr =
          (if (bit w 24 \<and> bit w 25) \<or> (bit w 24 \<and> bit w 26) \<or> (bit w 25 \<and> bit w 26)
              \<or> 128 < unat w mod 256
              \<or> unat (size_or_type th) * 8 < unat w mod 256
              \<or> unat (size_or_type th) * 8 < unat w div 65536 mod 256 + unat w mod 256
           then Inl (encoding_error InvalidIntBTFTypeEncoding (file_range_of fr))
           else Inr (BTFType_Int
                       \<lparr>int_name = name, int_is_signed = bit w 24, int_is_char = bit w 25,
                        int_is_bool = bit w 26, int_bits = take_bit 8 w,
                        int_offset = take_bit 8 (drop_bit 16 w)\<rparr>, fr2))" .
qed

theorem parseIntData_outcome_witness:
  "parseIntData int_example_header
       \<lparr>name_off = 1, vlen = 0, kind = 1, kind_flag = False, size_or_type = 4\<rparr>
       \<lparr>fr_data = int_example_file, fr_pos = 36, fr_little_endian = True\<rparr>
     = Inr (BTFType_Int
              \<lparr>int_name = [105, 110, 116], int_is_signed = False, int_is_char = False,
               int_is_bool = False, int_bits = 8, int_offset = 24\<rparr>,
            \<lparr>fr_data = int_example_file, fr_pos = 40, fr_little_endian = True\<rparr>)
   \<and> parseIntData int_example_header
       \<lparr>name_off = 1, vlen = 0, kind = 1, kind_flag = False, size_or_type = 4\<rparr>
       \<lparr>fr_data = int_example_past_boundary, fr_pos = 36, fr_little_endian = True\<rparr>
     = Inl \<lparr>err_code = InvalidIntBTFTypeEncoding,
            err_opt_file_range = Some \<lparr>range_offset = 24, range_size = 16\<rparr>\<rparr>
   \<and> parseIntData int_example_header
       \<lparr>name_off = 1, vlen = 1, kind = 1, kind_flag = False, size_or_type = 4\<rparr>
       \<lparr>fr_data = int_example_file, fr_pos = 36, fr_little_endian = True\<rparr>
     = Inl \<lparr>err_code = InvalidIntBTFTypeEncoding,
            err_opt_file_range = Some \<lparr>range_offset = 24, range_size = 16\<rparr>\<rparr>
   \<and> parseIntData int_example_header
       \<lparr>name_off = 200, vlen = 0, kind = 1, kind_flag = False, size_or_type = 4\<rparr>
       \<lparr>fr_data = int_example_file, fr_pos = 36, fr_little_endian = True\<rparr>
     = Inl \<lparr>err_code = IOError,
            err_opt_file_range = Some \<lparr>range_offset = 240, range_size = 1\<rparr>\<rparr>
   \<and> parseIntData int_truncated_header
       \<lparr>name_off = 0, vlen = 0, kind = 1, kind_flag = False, size_or_type = 4\<rparr>
       \<lparr>fr_data = int_truncated_file, fr_pos = 36, fr_little_endian = True\<rparr>
     = Inl \<lparr>err_code = IOError,
            err_opt_file_range = Some \<lparr>range_offset = 36, range_size = 4\<rparr>\<rparr>"
proof -
  let ?h = int_example_header
  let ?g = int_truncated_header
  let ?tn = "\<lparr>name_off = 200, vlen = 0, kind = 1, kind_flag = False, size_or_type = 4\<rparr>"
  let ?tu = "\<lparr>name_off = 0, vlen = 0, kind = 1, kind_flag = False, size_or_type = 4\<rparr>"
  let ?fc = "\<lparr>fr_data = int_truncated_file, fr_pos = 36, fr_little_endian = True\<rparr>"
  let ?ioe = "\<lparr>err_code = IOError,
              err_opt_file_range = Some \<lparr>range_offset = 240, range_size = 1\<rparr>\<rparr>"
  let ?rde = "\<lparr>fre_code = FR_IOError,
              fre_opt_read_operation = Some \<lparr>ro_offset = 36, ro_size = 4\<rparr>\<rparr>"
  let ?t = "\<lparr>name_off = 1, vlen = 0, kind = 1, kind_flag = False, size_or_type = 4\<rparr>"
  let ?tv = "\<lparr>name_off = 1, vlen = 1, kind = 1, kind_flag = False, size_or_type = 4\<rparr>"
  let ?fa = "\<lparr>fr_data = int_example_file, fr_pos = 36, fr_little_endian = True\<rparr>"
  let ?fa' = "\<lparr>fr_data = int_example_file, fr_pos = 40, fr_little_endian = True\<rparr>"
  let ?fb = "\<lparr>fr_data = int_example_past_boundary, fr_pos = 36, fr_little_endian = True\<rparr>"
  let ?fb' = "\<lparr>fr_data = int_example_past_boundary, fr_pos = 40, fr_little_endian = True\<rparr>"
  let ?err = "\<lparr>err_code = InvalidIntBTFTypeEncoding,
              err_opt_file_range = Some \<lparr>range_offset = 24, range_size = 16\<rparr>\<rparr>"
  have checks: "\<not> kind_flag ?t \<and> vlen ?t = 0 \<and> size_or_type ?t \<in> {1, 2, 4, 8, 16}"
    by simp
  have bad: "kind_flag ?tv \<or> vlen ?tv \<noteq> 0 \<or> size_or_type ?tv \<notin> {1, 2, 4, 8, 16}"
    by simp
  have na: "fst (parseString ?fa (ucast (hdr_len ?h + str_off ?h + name_off ?t)))
              = Inr [105, 110, 116]"
    by code_simp
  have nb: "fst (parseString ?fb (ucast (hdr_len ?h + str_off ?h + name_off ?t)))
              = Inr [105, 110, 116]"
    by code_simp
  have wa: "u32 ?fa = Inr (0x00180008, ?fa')" by code_simp
  have wb: "u32 ?fb = Inr (0x00190008, ?fb')" by code_simp
  have rng: "encoding_error InvalidIntBTFTypeEncoding (file_range_of ?fa) = ?err"
    "encoding_error InvalidIntBTFTypeEncoding (file_range_of ?fb) = ?err"
    by (simp_all add: encoding_error_def file_range_of_def offset_def kBTFTypeHeaderSize_def
          kIntBTFTypeSize_def)
  have a: "parseIntData ?h ?t ?fa =
             (if (bit (0x00180008 :: uint32) 24 \<and> bit (0x00180008 :: uint32) 25)
                 \<or> (bit (0x00180008 :: uint32) 24 \<and> bit (0x00180008 :: uint32) 26)
                 \<or> (bit (0x00180008 :: uint32) 25 \<and> bit (0x00180008 :: uint32) 26)
                 \<or> 128 < unat (0x00180008 :: uint32) mod 256
                 \<or> unat (size_or_type ?t) * 8 < unat (0x00180008 :: uint32) mod 256
                 \<or> unat (size_or_type ?t) * 8
                      < unat (0x00180008 :: uint32) div 65536 mod 256
                        + unat (0x00180008 :: uint32) mod 256
              then Inl (encoding_error InvalidIntBTFTypeEncoding (file_range_of ?fa))
              else Inr (BTFType_Int
                          \<lparr>int_name = [105, 110, 116],
                           int_is_signed = bit (0x00180008 :: uint32) 24,
                           int_is_char = bit (0x00180008 :: uint32) 25,
                           int_is_bool = bit (0x00180008 :: uint32) 26,
                           int_bits = take_bit 8 0x00180008,
                           int_offset = take_bit 8 (drop_bit 16 0x00180008)\<rparr>, ?fa'))"
    using parseIntData_outcome [of ?t ?h ?fa] checks na wa by blast
  have b: "parseIntData ?h ?t ?fb =
             (if (bit (0x00190008 :: uint32) 24 \<and> bit (0x00190008 :: uint32) 25)
                 \<or> (bit (0x00190008 :: uint32) 24 \<and> bit (0x00190008 :: uint32) 26)
                 \<or> (bit (0x00190008 :: uint32) 25 \<and> bit (0x00190008 :: uint32) 26)
                 \<or> 128 < unat (0x00190008 :: uint32) mod 256
                 \<or> unat (size_or_type ?t) * 8 < unat (0x00190008 :: uint32) mod 256
                 \<or> unat (size_or_type ?t) * 8
                      < unat (0x00190008 :: uint32) div 65536 mod 256
                        + unat (0x00190008 :: uint32) mod 256
              then Inl (encoding_error InvalidIntBTFTypeEncoding (file_range_of ?fb))
              else Inr (BTFType_Int
                          \<lparr>int_name = [105, 110, 116],
                           int_is_signed = bit (0x00190008 :: uint32) 24,
                           int_is_char = bit (0x00190008 :: uint32) 25,
                           int_is_bool = bit (0x00190008 :: uint32) 26,
                           int_bits = take_bit 8 0x00190008,
                           int_offset = take_bit 8 (drop_bit 16 0x00190008)\<rparr>, ?fb'))"
    using parseIntData_outcome [of ?t ?h ?fb] checks nb wb by blast
  have c: "parseIntData ?h ?tv ?fa
             = Inl (encoding_error InvalidIntBTFTypeEncoding (file_range_of ?fa))"
    using parseIntData_outcome [of ?tv ?h ?fa] bad by blast
  have bits: "\<not> bit (0x00180008 :: uint32) 24" "\<not> bit (0x00180008 :: uint32) 25"
    "\<not> bit (0x00180008 :: uint32) 26" "\<not> bit (0x00190008 :: uint32) 24"
    "\<not> bit (0x00190008 :: uint32) 25" "\<not> bit (0x00190008 :: uint32) 26"
    "take_bit 8 (0x00180008 :: uint32) = 8"
    "take_bit 8 (drop_bit 16 (0x00180008 :: uint32)) = 24"
    by code_simp+
  have checksn: "\<not> kind_flag ?tn \<and> vlen ?tn = 0 \<and> size_or_type ?tn \<in> {1, 2, 4, 8, 16}"
    by simp
  have checksu: "\<not> kind_flag ?tu \<and> vlen ?tu = 0 \<and> size_or_type ?tu \<in> {1, 2, 4, 8, 16}"
    by simp
  have nn: "fst (parseString ?fa (ucast (hdr_len ?h + str_off ?h + name_off ?tn))) = Inl ?ioe"
    by code_simp
  have nu: "fst (parseString ?fc (ucast (hdr_len ?g + str_off ?g + name_off ?tu))) = Inr []"
    by code_simp
  have wu: "u32 ?fc = Inl ?rde" by code_simp
  have d: "parseIntData ?h ?tn ?fa = Inl ?ioe"
    using parseIntData_outcome [of ?tn ?h ?fa] checksn nn by blast
  have e: "parseIntData ?g ?tu ?fc = Inl (convertFileReaderError ?rde)"
    using parseIntData_outcome [of ?tu ?g ?fc] checksu nu wu by blast
  have cv: "convertFileReaderError ?rde
              = \<lparr>err_code = IOError,
                 err_opt_file_range = Some \<lparr>range_offset = 36, range_size = 4\<rparr>\<rparr>"
    by (simp add: convertFileReaderError_def)
  from a b c d e cv rng bits show ?thesis by simp
qed

text \<open>
  Claim C5 as stated fails on the file below. Its Int entry has \<open>kind_flag\<close> clear,
  \<open>vlen = 0\<close>, size 4 and the encoding word \<open>0x20\<close> (no flag, width 32, offset 0):
  none of the listed conditions holds. Its name offset points past the end of the file,
  so the decoder neither succeeds nor fails with the Int-encoding error: it returns the
  byte source's error.
\<close>

theorem parseIntData_claim_counterexample:
  "parseTypeHeader \<lparr>fr_data = [0x9F, 0xEB, 1, 0, 24,0,0,0, 0,0,0,0, 16,0,0,0, 16,0,0,0, 5,0,0,0,
                                200,0,0,0, 0,0,0,1, 4,0,0,0, 32,0,0,0,
                                0, 105, 110, 116, 0],
                    fr_pos = 24, fr_little_endian = True\<rparr>
     = Inr (\<lparr>name_off = 200, vlen = 0, kind = 1, kind_flag = False, size_or_type = 4\<rparr>,
            \<lparr>fr_data = [0x9F, 0xEB, 1, 0, 24,0,0,0, 0,0,0,0, 16,0,0,0, 16,0,0,0, 5,0,0,0,
                        200,0,0,0, 0,0,0,1, 4,0,0,0, 32,0,0,0,
                        0, 105, 110, 116, 0],
             fr_pos = 36, fr_little_endian = True\<rparr>)
   \<and> u32 \<lparr>fr_data = [0x9F, 0xEB, 1, 0, 24,0,0,0, 0,0,0,0, 16,0,0,0, 16,0,0,0, 5,0,0,0,
                      200,0,0,0, 0,0,0,1, 4,0,0,0, 32,0,0,0,
                      0, 105, 110, 116, 0],
          fr_pos = 36, fr_little_endian = True\<rparr>
     = Inr (0x20,
            \<lparr>fr_data = [0x9F, 0xEB, 1, 0, 24,0,0,0, 0,0,0,0, 16,0,0,0, 16,0,0,0, 5,0,0,0,
                        200,0,0,0, 0,0,0,1, 4,0,0,0, 32,0,0,0,
                        0, 105, 110, 116, 0],
             fr_pos = 40, fr_little_endian = True\<rparr>)
   \<and> BTF \<lparr>fr_data = [0x9F, 0xEB, 1, 0, 24,0,0,0, 0,0,0,0, 16,0,0,0, 16,0,0,0, 5,0,0,0,
                      200,0,0,0, 0,0,0,1, 4,0,0,0, 32,0,0,0,
                      0, 105, 110, 116, 0],
          fr_pos = 0, fr_little_endian = False\<rparr>
     = Inl \<lparr>err_code = IOError,
            err_opt_file_range = Some \<lparr>range_offset = 240, range_size = 1\<rparr>\<rparr>"
  by code_simp

section \<open>The name of an Int entry\<close>

text \<open>
  Claim C2, as the code has it. Once the structural checks have passed, the Int decoder
  resolves the name through the String Resolver at the absolute offset
  \<open>hdr_len + str_off + name_off\<close> whatever \<open>name_off\<close> is, 0 included: when
  the resolution fails the decoder fails with the resolver's error, and when the decoder
  succeeds the name of the Int is the text the resolver returns.
\<close>

theorem parseIntData_resolves_name:
  assumes "\<not> kind_flag th" and "vlen th = 0" and "size_or_type th \<in> {1, 2, 4, 8, 16}"
  shows "(\<forall>e. fst (parseString fr (ucast (hdr_len hdr + str_off hdr + name_off th))) = Inl e \<longrightarrow>
              parseIntData hdr th fr = Inl e)
         \<and> (\<forall>ty fr'. parseIntData hdr th fr = Inr (ty, fr') \<longrightarrow>
               (\<exists>i. ty = BTFType_Int i
                    \<and> fst (parseString fr (ucast (hdr_len hdr + str_off hdr + name_off th)))
                        = Inr (int_name i)))"
proof (intro conjI allI impI)
  fix e
  assume "fst (parseString fr (ucast (hdr_len hdr + str_off hdr + name_off th))) = Inl e"
  then have "parseString fr (ucast (hdr_len hdr + str_off hdr + name_off th)) = (Inl e, fr)"
    by (rule parseString_fstD)
  with assms show "parseIntData hdr th fr = Inl e"
    by (auto simp: parseIntData_def Let_def)
next
  fix ty fr'
  assume a: "parseIntData hdr th fr = Inr (ty, fr')"
  let ?r = "fst (parseString fr (ucast (hdr_len hdr + str_off hdr + name_off th)))"
  have p: "parseString fr (ucast (hdr_len hdr + str_off hdr + name_off th)) = (?r, fr)"
    by (rule parseString_fstD) simp
  show "\<exists>i. ty = BTFType_Int i \<and> ?r = Inr (int_name i)"
  proof (cases ?r)
    case (Inl e)
    with p a assms show ?thesis by (auto simp: parseIntData_def Let_def)
  next
    case (Inr name)
    with p a assms show ?thesis
      by (auto simp: parseIntData_def Let_def split: sum.splits if_splits)
  qed
qed

theorem parseIntData_resolves_name_witness:
  "(\<exists>i. parseIntData int_unnamed_header
           \<lparr>name_off = 0, vlen = 0, kind = 1, kind_flag = False, size_or_type = 4\<rparr>
           \<lparr>fr_data = int_unnamed_file, fr_pos = 36, fr_little_endian = True\<rparr>
          = Inr (BTFType_Int i,
                 \<lparr>fr_data = int_unnamed_file, fr_pos = 40, fr_little_endian = True\<rparr>)
        \<and> int_name i = [120])
   \<and> parseIntData int_no_strings_header
         \<lparr>name_off = 0, vlen = 0, kind = 1, kind_flag = False, size_or_type = 4\<rparr>
         \<lparr>fr_data = int_no_strings_file, fr_pos = 36, fr_little_endian = True\<rparr>
       = Inl \<lparr>err_code = IOError,
              err_opt_file_range = Some \<lparr>range_offset = 224, range_size = 1\<rparr>\<rparr>"
proof -
  let ?h = int_unnamed_header
  let ?g = int_no_strings_header
  let ?t = "\<lparr>name_off = 0, vlen = 0, kind = 1, kind_flag = False, size_or_type = 4\<rparr>"
  let ?f = "\<lparr>fr_data = int_unnamed_file, fr_pos = 36, fr_little_endian = True\<rparr>"
  let ?f' = "\<lparr>fr_data = int_unnamed_file, fr_pos = 40, fr_little_endian = True\<rparr>"
  let ?k = "\<lparr>fr_data = int_no_strings_file, fr_pos = 36, fr_little_endian = True\<rparr>"
  let ?ioe = "\<lparr>err_code = IOError,
              err_opt_file_range = Some \<lparr>range_offset = 224, range_size = 1\<rparr>\<rparr>"
  have c: "\<not> kind_flag ?t" "vlen ?t = 0" "size_or_type ?t \<in> {1, 2, 4, 8, 16}" by simp_all
  have n: "fst (parseString ?f (ucast (hdr_len ?h + str_off ?h + name_off ?t))) = Inr [120]"
    by code_simp
  have m: "fst (parseString ?k (ucast (hdr_len ?g + str_off ?g + name_off ?t))) = Inl ?ioe"
    by code_simp
  obtain ty where r: "parseIntData ?h ?t ?f = Inr (ty, ?f')"
  proof
    show "parseIntData ?h ?t ?f
            = Inr (BTFType_Int \<lparr>int_name = [120], int_is_signed = False, int_is_char = False,
                                 int_is_bool = False, int_bits = 32, int_offset = 0\<rparr>, ?f')"
      by code_simp
  qed
  from parseIntData_resolves_name [OF c, of ?f ?h] r n
  obtain i where "ty = BTFType_Int i" and "int_name i = [120]" by auto
  with r have ok: "\<exists>i. parseIntData ?h ?t ?f = Inr (BTFType_Int i, ?f') \<and> int_name i = [120]"
    by blast
  from parseIntData_resolves_name [OF c, of ?k ?g] m
  have "parseIntData ?g ?t ?k = Inl ?ioe" by blast
  with ok show ?thesis by (rule conjI)
qed

text \<open>
  Claim C2 as stated fails on the two files: both hold one Int entry with name offset 0.
  In the first the decoded name is the text at the start of the string table; in the
  second the parse fails with the read error of the String Resolver at the absolute
  offset \<open>hdr_len + str_off = 224\<close>. In both a string resolution was performed for the
  name.
\<close>

theorem parseIntData_name_off_zero_counterexample:
  "BTF \<lparr>fr_data = int_unnamed_file, fr_pos = 0, fr_little_endian = False\<rparr>
     = Inr [BTFType_Int \<lparr>int_name = [120], int_is_signed = False, int_is_char = False,
                         int_is_bool = False, int_bits = 32, int_offset = 0\<rparr>]
   \<and> BTF \<lparr>fr_data = int_no_strings_file, fr_pos = 0, fr_little_endian = False\<rparr>
     = Inl \<lparr>err_code = IOError,
            err_opt_file_range = Some \<lparr>range_offset = 224, range_size = 1\<rparr>\<rparr>"
  by code_simp

section \<open>Where the type-section loop stops\<close>

lemma parseTypeSection_loop_end:
  "parseTypeSection_loop hdr e fr acc = Inr (tys, fr') \<Longrightarrow> unat e \<le> offset fr'"
proof (induction hdr e fr acc rule: parseTypeSection_loop.induct)
  case (1 hdr e fr acc)
  show ?case
  proof (cases "unat e \<le> offset fr")
    case True
    with "1.prems" show ?thesis by simp
  next
    case False
    with "1.prems" obtain th fr1 where h: "parseTypeHeader fr = Inr (th, fr1)"
      by (auto split: sum.splits)
    with False "1.prems" obtain parser where p: "kBTFParserMap (kind th) = Some parser"
      by (auto split: option.splits)
    with False h "1.prems" obtain ty fr2 where d: "parser hdr th fr1 = Inr (ty, fr2)"
      by (auto split: sum.splits)
    with False h p "1.prems" have "parseTypeSection_loop hdr e fr2 (acc @ [ty]) = Inr (tys, fr')"
      by simp
    from "1.IH" [OF False h refl p d refl this] show ?thesis .
  qed
qed

lemma unat_section_end:
  fixes a b c :: uint32
  assumes "unat a + unat b + unat c < 2 ^ 32"
  shows "unat (a + b + c) = unat a + unat b + unat c"
    and "unat (a + b) = unat a + unat b"
  using assms by (simp_all add: unat_word_ariths)

text \<open>
  Claim C3, as the code has it. The type-section parse computes the section start
  \<open>hdr_len + type_off\<close> and the section end \<open>hdr_len + type_off + type_len\<close> in
  32-bit arithmetic. A parse that returns a type list ends with its cursor at or past
  that end; when the sum does not overflow 32 bits, the cursor is then at least
  \<open>type_len\<close> bytes past the section start, so the decoded entries have consumed at
  least the declared length. The loop stops with success as soon as the cursor is at or
  past the end, without requiring equality, so entries that run past the declared end
  are accepted; and when the computed end is not above the computed start
  (\<open>type_len = 0\<close>, or a sum that wraps around), the parse returns the empty list
  without decoding anything.
\<close>

theorem parseTypeSection_ends_past_declared_end:
  "(\<forall>tys fr'. parseTypeSection hdr fr = Inr (tys, fr') \<longrightarrow>
       unat (hdr_len hdr + type_off hdr + type_len hdr) \<le> offset fr'
       \<and> (unat (hdr_len hdr) + unat (type_off hdr) + unat (type_len hdr) < 2 ^ 32 \<longrightarrow>
            unat (hdr_len hdr + type_off hdr) + unat (type_len hdr) \<le> offset fr'))
   \<and> (\<forall>e r acc. unat e \<le> offset r \<longrightarrow> parseTypeSection_loop hdr e r acc = Inr (acc, r))
   \<and> (unat (hdr_len hdr + type_off hdr + type_len hdr) \<le> unat (hdr_len hdr + type_off hdr) \<longrightarrow>
        parseTypeSection hdr fr = Inr ([], seek fr (unat (hdr_len hdr + type_off hdr))))"
proof (intro conjI allI impI)
  fix tys fr'
  assume a: "parseTypeSection hdr fr = Inr (tys, fr')"
  then show e: "unat (hdr_len hdr + type_off hdr + type_len hdr) \<le> offset fr'"
    unfolding parseTypeSection_def Let_def by (rule parseTypeSection_loop_end)
  assume "unat (hdr_len hdr) + unat (type_off hdr) + unat (type_len hdr) < 2 ^ 32"
  from unat_section_end [OF this] e
  show "unat (hdr_len hdr + type_off hdr) + unat (type_len hdr) \<le> offset fr'" by simp
next
  fix e :: uint32 and r acc
  assume "unat e \<le> offset r"
  then show "parseTypeSection_loop hdr e r acc = Inr (acc, r)" by simp
next
  assume "unat (hdr_len hdr + type_off hdr + type_len hdr) \<le> unat (hdr_len hdr + type_off hdr)"
  then show "parseTypeSection hdr fr = Inr ([], seek fr (unat (hdr_len hdr + type_off hdr)))"
    by (simp add: parseTypeSection_def Let_def offset_def seek_def)
qed

theorem parseTypeSection_ends_past_declared_end_witness:
  "parseTypeSection short_section_header
       \<lparr>fr_data = short_section_file, fr_pos = 24, fr_little_endian = True\<rparr>
     = Inr ([BTFType_Ptr 0],
            \<lparr>fr_data = short_section_file, fr_pos = 36, fr_little_endian = True\<rparr>)
   \<and> unat (hdr_len short_section_header + type_off short_section_header)
       + unat (type_len short_section_header)
       \<le> offset \<lparr>fr_data = short_section_file, fr_pos = 36, fr_little_endian = True\<rparr>
   \<and> parseTypeSection_loop short_section_header 32
         \<lparr>fr_data = short_section_file, fr_pos = 36, fr_little_endian = True\<rparr> [BTFType_Ptr 0]
       = Inr ([BTFType_Ptr 0],
              \<lparr>fr_data = short_section_file, fr_pos = 36, fr_little_endian = True\<rparr>)
   \<and> parseTypeSection wrapped_section_header
         \<lparr>fr_data = wrapped_section_file, fr_pos = 24, fr_little_endian = True\<rparr>
       = Inr ([], \<lparr>fr_data = wrapped_section_file, fr_pos = 24, fr_little_endian = True\<rparr>)"
proof -
  let ?h = short_section_header
  let ?w = wrapped_section_header
  let ?f = "\<lparr>fr_data = short_section_file, fr_pos = 24, fr_little_endian = True\<rparr>"
  let ?f' = "\<lparr>fr_data = short_section_file, fr_pos = 36, fr_little_endian = True\<rparr>"
  let ?g = "\<lparr>fr_data = wrapped_section_file, fr_pos = 24, fr_little_endian = True\<rparr>"
  have r: "parseTypeSection ?h ?f = Inr ([BTFType_Ptr 0], ?f')" by code_simp
  have nw: "unat (hdr_len ?h) + unat (type_off ?h) + unat (type_len ?h) < 2 ^ 32"
    by (simp add: short_section_header_def)
  have past: "unat (32 :: uint32) \<le> offset ?f'" by (simp add: offset_def)
  have wrap: "unat (hdr_len ?w + type_off ?w + type_len ?w) \<le> unat (hdr_len ?w + type_off ?w)"
    by (simp add: wrapped_section_header_def)
  have sk: "seek ?g (unat (hdr_len ?w + type_off ?w)) = ?g"
    by (simp add: wrapped_section_header_def seek_def)
  have b: "unat (hdr_len ?h + type_off ?h) + unat (type_len ?h) \<le> offset ?f'"
    using parseTypeSection_ends_past_declared_end [of ?h ?f] r nw by blast
  have l: "parseTypeSection_loop ?h 32 ?f' [BTFType_Ptr 0] = Inr ([BTFType_Ptr 0], ?f')"
    using parseTypeSection_ends_past_declared_end [of ?h ?f] past by blast
  have e: "parseTypeSection ?w ?g = Inr ([], seek ?g (unat (hdr_len ?w + type_off ?w)))"
    using parseTypeSection_ends_past_declared_end [of ?w ?g] wrap by blast
  from r b l e sk show ?thesis by simp
qed

text \<open>
  Claim C3 as stated fails on the first file: the declared length of the type section is
  8, the one decoded entry consumes 12 bytes, and the parse returns the type list. It
  fails on the second file too: the declared length is \<open>0xFFFFFFF0\<close>, the computed end
  wraps around to 8, and the parse returns the empty list although the file holds a
  decodable entry.
\<close>

theorem parseTypeSection_misaligned_counterexample:
  "readBTFHeader \<lparr>fr_data = short_section_file, fr_pos = 0, fr_little_endian = True\<rparr>
     = Inr (short_section_header,
            \<lparr>fr_data = short_section_file, fr_pos = 24, fr_little_endian = True\<rparr>)
   \<and> type_len short_section_header = 8
   \<and> parseTypeSection short_section_header
         \<lparr>fr_data = short_section_file, fr_pos = 24, fr_little_endian = True\<rparr>
       = Inr ([BTFType_Ptr 0],
              \<lparr>fr_data = short_section_file, fr_pos = 36, fr_little_endian = True\<rparr>)
   \<and> BTF \<lparr>fr_data = short_section_file, fr_pos = 0, fr_little_endian = False\<rparr>
       = Inr [BTFType_Ptr 0]
   \<and> readBTFHeader \<lparr>fr_data = wrapped_section_file, fr_pos = 0, fr_little_endian = True\<rparr>
       = Inr (wrapped_section_header,
              \<lparr>fr_data = wrapped_section_file, fr_pos = 24, fr_little_endian = True\<rparr>)
   \<and> type_len wrapped_section_header = 0xFFFFFFF0
   \<and> BTF \<lparr>fr_data = wrapped_section_file, fr_pos = 0, fr_little_endian = False\<rparr>
       = Inr []"
  by code_simp

end
